theory Spec2Isabelle
  imports Main "HOL-Library.Word" "HOL-Library.AList"
begin

unbundle bit_operations_syntax

section \<open>TextPress eXtended Atom: exporter and importer\<close>

text \<open>
  A shallow embedding of the TPXA exporter (\<^verbatim>\<open>shared/textpress_exporter.py\<close>, class
  \<^verbatim>\<open>Writer\<close>) and of the Zine importer plugin (\<^verbatim>\<open>textpress_importer/__init__.py\<close>,
  \<^verbatim>\<open>parse_feed\<close>, \<^verbatim>\<open>AtomParser\<close>, \<^verbatim>\<open>TPZEAExtension\<close>).  Both are Python 2 programs.
  Exceptions are values of type \<open>error\<close>, a function that may raise returns
  \<open>error + 'a\<close>, and objects whose identity matters (authors, comments, tags,
  categories) live in a heap and are named by their address.
\<close>

subsection \<open>Exceptions\<close>

text \<open>
  The string of \<open>FeedImportError\<close> is the message passed to the exception (the
  untranslated message id of \<^verbatim>\<open>_()\<close>); the string of every other exception names the
  expression that raises it.  \<open>ExternalError\<close> is whatever a function outside this
  repository raises.
\<close>

datatype error =
    FeedImportError string
  | IndexError string
  | KeyError string
  | ValueError string
  | TypeError string
  | AttributeError string
  | UnboundLocalError string
  | UnicodeEncodeError string
  | ExternalError string

fun bind :: "error + 'a \<Rightarrow> ('a \<Rightarrow> error + 'b) \<Rightarrow> error + 'b" where
  "bind (Inl e) f = Inl e"
| "bind (Inr x) f = f x"

text \<open>The exception a computation ended with, if any.\<close>

fun raised :: "error + 'a \<Rightarrow> error option" where
  "raised (Inl e) = Some e"
| "raised (Inr x) = None"

subsection \<open>Python built-ins used by the code\<close>

text \<open>Truth value of a string or \<^verbatim>\<open>None\<close>: \<^verbatim>\<open>None\<close> and the empty string are false.\<close>

fun truthy :: "string option \<Rightarrow> bool" where
  "truthy None = False"
| "truthy (Some s) = (s \<noteq> [])"

text \<open>\<^verbatim>\<open>str(n)\<close> of an integer and \<^verbatim>\<open>'%x' % n\<close> of a non-negative one.\<close>

definition digit_char :: "nat \<Rightarrow> char" where
  "digit_char d = ''0123456789'' ! d"

fun str_nat :: "nat \<Rightarrow> string" where
  "str_nat n = (if n < 10 then [digit_char n] else str_nat (n div 10) @ [digit_char (n mod 10)])"

declare str_nat.simps [simp del]

definition str :: "int \<Rightarrow> string" where
  "str i = (if i < 0 then CHR ''-'' # str_nat (nat (- i)) else str_nat (nat i))"

definition hex_char :: "nat \<Rightarrow> char" where
  "hex_char d = ''0123456789abcdef'' ! d"

fun hex :: "nat \<Rightarrow> string" where
  "hex n = (if n < 16 then [hex_char n] else hex (n div 16) @ [hex_char (n mod 16)])"

declare hex.simps [simp del]

subsection \<open>Element trees\<close>

text \<open>
  An element of ElementTree/lxml: tag (a namespaced tag is written
  \<^verbatim>\<open>{namespace}local\<close>), attribute dictionary, text (\<^verbatim>\<open>None\<close> when absent) and
  child elements in document order.  Tails are not modelled: no code of the
  repository reads them.
\<close>

datatype element =
  Element (tag: string) (attrib: "(string \<times> string) list") (etext: "string option")
          (children: "element list")

definition ATOM_NS :: string where
  "ATOM_NS = ''http://www.w3.org/2005/Atom''"

definition XML_NS :: string where
  "XML_NS = ''http://www.w3.org/XML/1998/namespace''"

definition TEXTPRESS_NS :: string where
  "TEXTPRESS_NS = ''http://textpress.pocoo.org/''"

definition TEXTPRESS_TAG_URI :: string where
  "TEXTPRESS_TAG_URI = TEXTPRESS_NS @ ''#tag-scheme''"

definition TEXTPRESS_CATEGORY_URI :: string where
  "TEXTPRESS_CATEGORY_URI = TEXTPRESS_NS @ ''#category-scheme''"

text \<open>\<^verbatim>\<open>_ElementHelper.__getattr__\<close> (and \<^verbatim>\<open>Namespace\<close> on the importer's side).\<close>

definition qname :: "string \<Rightarrow> string \<Rightarrow> string" where
  "qname ns t = ''{'' @ ns @ ''}'' @ t"

definition atom :: "string \<Rightarrow> string" where
  "atom t = qname ATOM_NS t"

definition xml :: "string \<Rightarrow> string" where
  "xml t = qname XML_NS t"

definition textpress :: "string \<Rightarrow> string" where
  "textpress t = qname TEXTPRESS_NS t"

text \<open>\<^verbatim>\<open>attrib.get(k)\<close>, \<^verbatim>\<open>find\<close>, \<^verbatim>\<open>findall\<close>, \<^verbatim>\<open>findtext\<close> with a plain tag as path.\<close>

definition attrib_get :: "element \<Rightarrow> string \<Rightarrow> string option" where
  "attrib_get e k = map_of (attrib e) k"

definition findall :: "element \<Rightarrow> string \<Rightarrow> element list" where
  "findall e t = filter (\<lambda>c. tag c = t) (children e)"

definition find_elem :: "element \<Rightarrow> string \<Rightarrow> element option" where
  "find_elem e t = (case findall e t of [] \<Rightarrow> None | c # _ \<Rightarrow> Some c)"

definition findtext :: "element \<Rightarrow> string \<Rightarrow> string option" where
  "findtext e t =
     (case find_elem e t of
        None \<Rightarrow> None
      | Some c \<Rightarrow> (case etext c of None \<Rightarrow> Some [] | Some s \<Rightarrow> Some s))"


subsection \<open>The importer's collaborators\<close>

text \<open>
  A value stored in an opaque payload (what \<^verbatim>\<open>pickle.loads\<close> returns).  Only the shape
  the importer looks at is kept: a dictionary with string keys, a string,
  \<^verbatim>\<open>None\<close>, the empty list, and \<open>PyOpaque\<close> for any other value (taken to be
  hashable and different from every parser name).
\<close>

datatype pyval =
  PyNone | PyStr string | PyEmptyList | PyDict "(string \<times> pyval) list" | PyOpaque string

text \<open>\<^verbatim>\<open>value.get(key, default)\<close>: only a dictionary has the method.\<close>

fun dict_get :: "pyval \<Rightarrow> string \<Rightarrow> pyval \<Rightarrow> error + pyval" where
  "dict_get (PyDict d) k dflt = Inr (case map_of d k of None \<Rightarrow> dflt | Some v \<Rightarrow> v)"
| "dict_get PyNone k dflt = Inl (AttributeError ''get'')"
| "dict_get (PyStr s) k dflt = Inl (AttributeError ''get'')"
| "dict_get PyEmptyList k dflt = Inl (AttributeError ''get'')"
| "dict_get (PyOpaque s) k dflt = Inl (AttributeError ''get'')"

type_synonym datetime = int

text \<open>
  Functions and tables of Zine, lxml and the Python run time that the importer calls
  and that are not part of the repository.  \<open>loads_base64 v\<close> is
  \<^verbatim>\<open>loads(v.decode('base64'))\<close>, \<open>load_parser_data_base64 v\<close> is
  \<^verbatim>\<open>load_parser_data(v.decode('base64'))\<close>, \<open>parsers\<close> are the keys of
  \<^verbatim>\<open>get_application().parsers\<close>, \<open>privileges\<close> is \<^verbatim>\<open>app.privileges.get\<close>,
  \<open>xpath_string\<close> is the XPath string value lxml gives an element bound to an
  XPath variable, and \<open>int_dict_order\<close> is the order in which a Python 2 dictionary
  with the given integer keys (listed in insertion order) iterates.  The texts of a
  document may hold any character of Unicode, and Python's \<^verbatim>\<open>int\<close> and \<^verbatim>\<open>strip\<close> know
  the white space and the decimal digits of Unicode: \<open>int_text v\<close> is \<^verbatim>\<open>int(v)\<close> for a
  text \<open>v\<close>, \<open>None\<close> when it raises \<^verbatim>\<open>ValueError\<close>, and \<open>strip_text v\<close> is
  \<^verbatim>\<open>v.strip()\<close>.
\<close>

record penv =
  parse_iso8601 :: "string option \<Rightarrow> error + datetime"
  loads_base64 :: "string \<Rightarrow> error + pyval"
  load_parser_data_base64 :: "string \<Rightarrow> error + pyval"
  to_text :: "element \<Rightarrow> string"
  parsers :: "string list"
  privileges :: "string option \<Rightarrow> string option"
  xpath_string :: "element \<Rightarrow> string"
  int_dict_order :: "int list \<Rightarrow> int list"
  int_text :: "string \<Rightarrow> int option"
  strip_text :: "string \<Rightarrow> string"

text \<open>\<^verbatim>\<open>int(v)\<close> for a text or \<^verbatim>\<open>None\<close>; \<^verbatim>\<open>int(None)\<close> is a \<^verbatim>\<open>TypeError\<close>.\<close>

fun py_int :: "penv \<Rightarrow> string option \<Rightarrow> error + int" where
  "py_int env None = Inl (TypeError ''int(None)'')"
| "py_int env (Some s) =
     (case int_text env s of None \<Rightarrow> Inl (ValueError ''int'') | Some n \<Rightarrow> Inr n)"

subsection \<open>Decoded objects\<close>

text \<open>
  Modelled from the spec: the classes \<^verbatim>\<open>Author\<close>, \<^verbatim>\<open>Comment\<close>, \<^verbatim>\<open>Post\<close>, \<^verbatim>\<open>Tag\<close>,
  \<^verbatim>\<open>Category\<close> and \<^verbatim>\<open>Blog\<close> of \<^verbatim>\<open>zine.importers\<close> are not in the repository.  Each
  record keeps the constructor arguments as the importer passes them, in the order
  of the call, and the attributes the importer sets afterwards.  An argument the
  importer does not pass is \<open>None\<close>, \<open>PyNone\<close> or the empty list.  A reference to an
  object is its address in the heap of its class.
\<close>

record author =
  a_username :: "string option"
  a_email :: "string option"
  a_real_name :: "string option"
  a_description :: "string option"
  a_www :: "string option"
  a_pw_hash :: "string option"
  a_is_author :: "bool option"
  a_extra :: pyval
  a_privileges :: "string list"

datatype comment_author = AuthorName "string option" | AuthorObject nat

record comment =
  cm_author :: comment_author
  cm_body :: pyval
  cm_email :: "string option"
  cm_www :: "string option"
  cm_parent :: "nat option"
  cm_pub_date :: datetime
  cm_submitter_ip :: "string option"
  cm_parser :: string
  cm_is_pingback :: bool
  cm_status :: int
  cm_blocked_msg :: "string option"
  cm_parser_data :: pyval

record tag_obj =
  tg_term :: string
  tg_label :: "string option"

record category =
  cat_term :: string
  cat_label :: "string option"
  cat_description :: "string option"

record post =
  po_slug :: "string option"
  po_title :: string
  po_link :: "string option"
  po_pub_date :: datetime
  po_author :: nat
  po_intro :: "string option"
  po_body :: "string option"
  po_tags :: "nat list"
  po_categories :: "nat list"
  po_parser :: string
  po_updated :: datetime
  po_uid :: "string option"
  po_element :: element
  po_content_type :: "string option"
  po_comments :: "nat list"

record blog =
  b_title :: "string option"
  b_link :: "string option"
  b_description :: "string option"
  b_language :: string
  b_tags :: "nat list"
  b_categories :: "nat list"
  b_posts :: "post list"
  b_authors :: "nat list"
  b_element :: element
  b_configuration :: "(string \<times> string option) list"

subsection \<open>State of one import\<close>

text \<open>
  The attributes of the \<^verbatim>\<open>AtomParser\<close> (\<open>tags\<close> to \<open>authors_by_email\<close>), those of its
  one \<^verbatim>\<open>TPZEAExtension\<close> (\<open>x_authors\<close> to \<open>x_dependencies\<close>; \<^verbatim>\<open>setup\<close> registers this
  extension class, and the parser is taken to hold exactly that instance), and the
  heaps.  The caches are dictionaries that are only read by key.
\<close>

record pstate =
  tags :: "nat list"
  categories :: "nat list"
  authors :: "nat list"
  posts :: "post list"
  categories_by_term :: "string \<rightharpoonup> nat"
  authors_by_username :: "string \<rightharpoonup> nat"
  authors_by_email :: "string \<rightharpoonup> nat"
  x_authors :: "string \<rightharpoonup> nat"
  x_tags :: "string \<rightharpoonup> nat"
  x_categories :: "string \<rightharpoonup> nat"
  x_dependencies :: "element option"
  author_objs :: "author list"
  comment_objs :: "comment list"
  tag_objs :: "tag_obj list"
  category_objs :: "category list"

definition new_author :: "author \<Rightarrow> pstate \<Rightarrow> nat \<times> pstate" where
  "new_author a s = (length (author_objs s), s\<lparr>author_objs := author_objs s @ [a]\<rparr>)"

definition new_comment :: "comment \<Rightarrow> pstate \<Rightarrow> nat \<times> pstate" where
  "new_comment c s = (length (comment_objs s), s\<lparr>comment_objs := comment_objs s @ [c]\<rparr>)"

definition new_tag :: "tag_obj \<Rightarrow> pstate \<Rightarrow> nat \<times> pstate" where
  "new_tag t s = (length (tag_objs s), s\<lparr>tag_objs := tag_objs s @ [t]\<rparr>)"

definition new_category :: "category \<Rightarrow> pstate \<Rightarrow> nat \<times> pstate" where
  "new_category c s = (length (category_objs s), s\<lparr>category_objs := category_objs s @ [c]\<rparr>)"

text \<open>A \<^verbatim>\<open>for\<close> loop whose body may raise: the first exception ends the loop.\<close>

fun for_each :: "('a \<Rightarrow> 'b \<Rightarrow> error + 'b) \<Rightarrow> 'a list \<Rightarrow> 'b \<Rightarrow> error + 'b" where
  "for_each f [] s = Inr s"
| "for_each f (x # xs) s = bind (f x s) (for_each f xs)"

subsection \<open>Module-level helpers of the importer\<close>

definition has_type :: "string \<Rightarrow> element \<Rightarrow> bool" where
  "has_type t e = (attrib_get e ''type'' = Some t)"

definition get_text_content :: "penv \<Rightarrow> element list \<Rightarrow> string" where
  "get_text_content env elements =
     (if elements = [] then []
      else case List.find (has_type ''text'') elements of
             Some e \<Rightarrow> (case etext e of None \<Rightarrow> [] | Some t \<Rightarrow> t)
           | None \<Rightarrow>
               (case List.find (has_type ''html'') elements of
                  Some e \<Rightarrow> to_text env e
                | None \<Rightarrow> to_text env (hd elements)))"

definition get_html_content :: "element list \<Rightarrow> string option" where
  "get_html_content elements =
     (if elements = [] then Some []
      else case List.find (has_type ''html'') elements of
             Some e \<Rightarrow> etext e
           | None \<Rightarrow> etext (hd elements))"

fun to_bool :: "penv \<Rightarrow> string option \<Rightarrow> error + bool" where
  "to_bool env None = Inl (AttributeError ''value.strip'')"
| "to_bool env (Some v) =
     (let value = strip_text env v in
      if value = ''yes'' then Inr True
      else if value = ''no'' then Inr False
      else Inl (ValueError ''invalid boolean literal, expected yes/no''))"

fun pickle :: "penv \<Rightarrow> string option \<Rightarrow> error + pyval" where
  "pickle env None = Inr PyNone"
| "pickle env (Some v) = (if v = [] then Inr PyNone else loads_base64 env v)"

fun parser_data :: "penv \<Rightarrow> string option \<Rightarrow> error + pyval" where
  "parser_data env None = Inr PyNone"
| "parser_data env (Some v) = (if v = [] then Inr PyNone else load_parser_data_base64 env v)"

text \<open>
  \<^verbatim>\<open>if p not in get_application().parsers: p = 'html'\<close>, for the value \<open>p\<close> read from a
  payload; \<^verbatim>\<open>parsers\<close> is a dictionary, and a list or a dictionary cannot be hashed.
\<close>

fun known_parser :: "penv \<Rightarrow> pyval \<Rightarrow> error + string" where
  "known_parser env (PyStr p) = Inr (if p \<in> set (parsers env) then p else ''html'')"
| "known_parser env PyNone = Inr ''html''"
| "known_parser env (PyOpaque x) = Inr ''html''"
| "known_parser env PyEmptyList = Inl (TypeError ''unhashable type'')"
| "known_parser env (PyDict d) = Inl (TypeError ''unhashable type'')"

subsection \<open>\<^verbatim>\<open>TPZEAExtension\<close>\<close>

text \<open>
  \<^verbatim>\<open>_get_author(dependency)\<close>.  \<^verbatim>\<open>lookup_author\<close> passes the dependency id, a string;
  \<^verbatim>\<open>parse_comments\<close> passes the author element itself.  An element hashes by
  identity and each element is looked up once, so an element is never found in
  \<^verbatim>\<open>_authors\<close>, and storing under it is not observable.  \<open>lookup_user\<close> is the XPath
  \<^verbatim>\<open>tp:user[@tp:dependency=$id]\<close> evaluated at \<^verbatim>\<open>_dependencies\<close>.
\<close>

datatype dep_key = DepId string | DepElement element

fun key_string :: "penv \<Rightarrow> dep_key \<Rightarrow> string" where
  "key_string env (DepId d) = d"
| "key_string env (DepElement e) = xpath_string env e"

fun cached_author :: "pstate \<Rightarrow> dep_key \<Rightarrow> nat option" where
  "cached_author s (DepId d) = x_authors s d"
| "cached_author s (DepElement e) = None"

fun cache_author :: "dep_key \<Rightarrow> nat \<Rightarrow> pstate \<Rightarrow> pstate" where
  "cache_author (DepId d) a s = s\<lparr>x_authors := (x_authors s)(d \<mapsto> a)\<rparr>"
| "cache_author (DepElement e) a s = s"

fun lookup_user :: "penv \<Rightarrow> element option \<Rightarrow> dep_key \<Rightarrow> error + element list" where
  "lookup_user env None k = Inl (TypeError ''_lookup_user(None)'')"
| "lookup_user env (Some deps) k =
     Inr (filter (\<lambda>u. attrib_get u (textpress ''dependency'') = Some (key_string env k))
            (findall deps (textpress ''user'')))"

text \<open>\<^verbatim>\<open>int(element.findtext(textpress.role) or 0) == 4\<close>\<close>

definition role_is_author :: "penv \<Rightarrow> element \<Rightarrow> error + bool" where
  "role_is_author env element =
     (let role = findtext element (textpress ''role'') in
      if truthy role then bind (py_int env role) (\<lambda>r. Inr (r = 4)) else Inr False)"

text \<open>The privileges loop: the known privileges named by the \<^verbatim>\<open>tp:privilege\<close> children.\<close>

definition author_privileges :: "penv \<Rightarrow> element \<Rightarrow> string list" where
  "author_privileges env element =
     fold (\<lambda>privilege ps. case privileges env (etext privilege) of
                             None \<Rightarrow> ps | Some p \<Rightarrow> List.insert p ps)
       (findall element (textpress ''privilege'')) []"

definition get_author :: "penv \<Rightarrow> dep_key \<Rightarrow> pstate \<Rightarrow> error + nat \<times> pstate" where
  "get_author env dependency s =
     (case cached_author s dependency of
        Some a \<Rightarrow> Inr (a, s)
      | None \<Rightarrow>
          bind (lookup_user env (x_dependencies s) dependency) (\<lambda>found.
            case found of
              [] \<Rightarrow> Inl (IndexError ''_lookup_user(...)[0]'')
            | element # _ \<Rightarrow>
                bind (role_is_author env element) (\<lambda>is_author.
                bind (pickle env (findtext element (textpress ''extra''))) (\<lambda>extra.
                  let (a, s1) = new_author
                        \<lparr>a_username = findtext element (textpress ''username''),
                         a_email = findtext element (textpress ''email''),
                         a_real_name = findtext element (textpress ''real_name''),
                         a_description = findtext element (textpress ''description''),
                         a_www = findtext element (textpress ''www''),
                         a_pw_hash = findtext element (textpress ''pw_hash''),
                         a_is_author = Some is_author,
                         a_extra = extra,
                         a_privileges = author_privileges env element\<rparr> s;
                      s2 = cache_author dependency a s1
                  in Inr (a, s2\<lparr>authors := authors s2 @ [a]\<rparr>)))))"

definition parse_tag :: "element \<Rightarrow> pstate \<Rightarrow> error + nat \<times> pstate" where
  "parse_tag element s =
     (case attrib_get element ''term'' of
        None \<Rightarrow> Inl (KeyError ''term'')
      | Some term \<Rightarrow>
          (case x_tags s term of
             Some t \<Rightarrow> Inr (t, s)
           | None \<Rightarrow>
               let (t, s1) = new_tag \<lparr>tg_term = term, tg_label = attrib_get element ''label''\<rparr> s
               in Inr (t, s1\<lparr>x_tags := (x_tags s1)(term \<mapsto> t)\<rparr>)))"

definition parse_category :: "element \<Rightarrow> pstate \<Rightarrow> error + nat \<times> pstate" where
  "parse_category element s =
     (case attrib_get element ''term'' of
        None \<Rightarrow> Inl (KeyError ''term'')
      | Some term \<Rightarrow>
          (case x_categories s term of
             Some c \<Rightarrow> Inr (c, s)
           | None \<Rightarrow>
               let (c, s1) = new_category
                     \<lparr>cat_term = term, cat_label = attrib_get element ''label'',
                      cat_description = findtext element (textpress ''description'')\<rparr> s
               in Inr (c, s1\<lparr>x_categories := (x_categories s1)(term \<mapsto> c)\<rparr>)))"

text \<open>\<^verbatim>\<open>_parse_config\<close> and \<^verbatim>\<open>handle_root\<close>: the configuration items update the blog's.\<close>

definition parse_config :: "element option \<Rightarrow> error + (string \<times> string option) list" where
  "parse_config element =
     (case element of
        None \<Rightarrow> Inr []
      | Some cfg \<Rightarrow>
          for_each (\<lambda>item result.
                      case attrib_get item ''key'' of
                        None \<Rightarrow> Inl (KeyError ''key'')
                      | Some key \<Rightarrow> Inr (AList.update key (etext item) result))
            (findall cfg (textpress ''item'')) [])"

definition handle_root :: "blog \<Rightarrow> error + blog" where
  "handle_root b =
     bind (parse_config (find_elem (b_element b) (textpress ''configuration''))) (\<lambda>cfg.
       Inr (b\<lparr>b_configuration := fold (\<lambda>(k, v). AList.update k v) cfg (b_configuration b)\<rparr>))"

definition postprocess_post :: "post \<Rightarrow> post" where
  "postprocess_post p =
     (case findtext (po_element p) (textpress ''content_type'') of
        None \<Rightarrow> p
      | Some content_type \<Rightarrow> p\<lparr>po_content_type := Some content_type\<rparr>)"

text \<open>\<^verbatim>\<open>lookup_author\<close>: \<open>None\<close> when the author element has no \<^verbatim>\<open>tp:dependency\<close>.\<close>

definition lookup_author :: "penv \<Rightarrow> element \<Rightarrow> pstate \<Rightarrow> error + nat option \<times> pstate" where
  "lookup_author env author s =
     (case attrib_get author (textpress ''dependency'') of
        None \<Rightarrow> Inr (None, s)
      | Some dependency \<Rightarrow>
          bind (get_author env (DepId dependency) s) (\<lambda>(a, s1). Inr (Some a, s1)))"

datatype taxon = TagObject nat | CategoryObject nat

definition tag_or_category :: "element \<Rightarrow> pstate \<Rightarrow> error + taxon option \<times> pstate" where
  "tag_or_category element s =
     (let scheme = attrib_get element ''scheme'' in
      if scheme = Some TEXTPRESS_TAG_URI
        then bind (parse_tag element s) (\<lambda>(t, s1). Inr (Some (TagObject t), s1))
      else if scheme = Some TEXTPRESS_CATEGORY_URI
        then bind (parse_category element s) (\<lambda>(c, s1). Inr (Some (CategoryObject c), s1))
      else Inr (None, s))"

text \<open>
  \<^verbatim>\<open>TPZEAExtension.parse_comments\<close>.  The state of its first loop: the dictionary
  \<^verbatim>\<open>comments\<close> (keys in insertion order), the dictionary \<^verbatim>\<open>unresolved_parents\<close> (one
  entry per comment object, so the entries are kept as a list), the local variable
  \<^verbatim>\<open>comment_parser\<close> (\<open>None\<close> while it is unbound; it keeps its value from one
  comment to the next) and the state of the import.
\<close>

type_synonym comments_loop = "(int \<times> nat) list \<times> (nat \<times> int) list \<times> string option \<times> pstate"

text \<open>The author of a comment: \<^verbatim>\<open>(author, email, www)\<close>.\<close>

definition comment_author_of ::
  "penv \<Rightarrow> element \<Rightarrow> pstate \<Rightarrow>
     error + (comment_author \<times> string option \<times> string option) \<times> pstate" where
  "comment_author_of env element s =
     (case find_elem element (textpress ''author'') of
        None \<Rightarrow> Inl (AttributeError ''author.attrib'')
      | Some author \<Rightarrow>
          (case attrib_get author ''dependency'' of
             Some dependency \<Rightarrow>
               bind (get_author env (DepElement author) s) (\<lambda>(a, s1).
                 Inr ((AuthorObject a, None, None), s1))
           | None \<Rightarrow>
               Inr ((AuthorName (findtext author (textpress ''name'')),
                     findtext author (textpress ''email''),
                     findtext author (textpress ''uri'')), s)))"

text \<open>The body of a comment and the new value of \<^verbatim>\<open>comment_parser\<close>.\<close>

definition comment_body ::
  "penv \<Rightarrow> element \<Rightarrow> string option \<Rightarrow> error + pyval \<times> string option" where
  "comment_body env element comment_parser =
     (case findall element (textpress ''data'') of
        [] \<Rightarrow> Inr (PyEmptyList, comment_parser)
      | b # _ \<Rightarrow>
          bind (pickle env (etext b)) (\<lambda>pickled.
          bind (dict_get pickled ''raw_body'' (PyStr [])) (\<lambda>body.
          bind (dict_get pickled ''parser'' (PyStr ''html'')) (\<lambda>p.
          bind (known_parser env p) (\<lambda>p'. Inr (body, Some p'))))))"

text \<open>The \<^verbatim>\<open>Comment\<close> object of one element, up to the call of the constructor.\<close>

definition make_comment ::
  "penv \<Rightarrow> element \<Rightarrow> string option \<Rightarrow> pstate \<Rightarrow> error + (nat \<times> string option) \<times> pstate" where
  "make_comment env element comment_parser s =
     bind (comment_author_of env element s) (\<lambda>((author, email, www), s1).
     bind (comment_body env element comment_parser) (\<lambda>(body, comment_parser1).
     bind (parse_iso8601 env (findtext element (textpress ''published''))) (\<lambda>pub_date.
     bind (case comment_parser1 of
             None \<Rightarrow> Inl (UnboundLocalError ''comment_parser'')
           | Some p \<Rightarrow> Inr p) (\<lambda>parser.
     bind (to_bool env (findtext element (textpress ''is_pingback''))) (\<lambda>is_pingback.
     bind (py_int env (findtext element (textpress ''status''))) (\<lambda>status.
     bind (parser_data env (findtext element (textpress ''parser_data''))) (\<lambda>pdata.
       let (c, s2) = new_comment
             \<lparr>cm_author = author, cm_body = body, cm_email = email, cm_www = www,
              cm_parent = None, cm_pub_date = pub_date,
              cm_submitter_ip = findtext element (textpress ''submitter_ip''),
              cm_parser = parser, cm_is_pingback = is_pingback, cm_status = status,
              cm_blocked_msg = findtext element (textpress ''blocked_msg''),
              cm_parser_data = pdata\<rparr> s1
       in Inr ((c, comment_parser1), s2))))))))"

text \<open>
  The end of the loop body: \<^verbatim>\<open>comments[int(id)] = comment\<close> and
  \<^verbatim>\<open>if parent is not None or '': unresolved_parents[comment] = int(parent)\<close>.  The
  condition is \<^verbatim>\<open>(parent is not None) or ''\<close>, which is true exactly when the element
  has a \<^verbatim>\<open>tp:parent\<close> child.
\<close>

definition store_comment ::
  "penv \<Rightarrow> element \<Rightarrow> nat \<Rightarrow> (int \<times> nat) list \<times> (nat \<times> int) list \<Rightarrow>
     error + (int \<times> nat) list \<times> (nat \<times> int) list" where
  "store_comment env element c d =
     (case d of (comments, unresolved_parents) \<Rightarrow>
        bind (py_int env (findtext element (textpress ''id''))) (\<lambda>cid.
          let comments1 = AList.update cid c comments;
              parent = findtext element (textpress ''parent'')
          in if parent \<noteq> None
             then bind (py_int env parent) (\<lambda>parent_id.
                    Inr (comments1, unresolved_parents @ [(c, parent_id)]))
             else Inr (comments1, unresolved_parents)))"

definition parse_comment :: "penv \<Rightarrow> element \<Rightarrow> comments_loop \<Rightarrow> error + comments_loop" where
  "parse_comment env element st =
     (case st of (comments, unresolved_parents, comment_parser, s) \<Rightarrow>
        bind (make_comment env element comment_parser s) (\<lambda>((c, comment_parser1), s1).
        bind (store_comment env element c (comments, unresolved_parents))
          (\<lambda>(comments1, unresolved1). Inr (comments1, unresolved1, comment_parser1, s1))))"

text \<open>
  The second loop, \<^verbatim>\<open>comment.parent = comments[parent_id]\<close>.  Python visits the
  entries of \<^verbatim>\<open>unresolved_parents\<close> in the order of their hashes; every entry
  raises the same exception or sets the parent of another comment, so the order is
  not observable and the entries are visited in insertion order.
\<close>

definition set_parent :: "nat \<Rightarrow> nat \<Rightarrow> pstate \<Rightarrow> pstate" where
  "set_parent c p s =
     s\<lparr>comment_objs := (comment_objs s)[c := (comment_objs s ! c)\<lparr>cm_parent := Some p\<rparr>]\<rparr>"

definition link_parent :: "(int \<times> nat) list \<Rightarrow> nat \<times> int \<Rightarrow> pstate \<Rightarrow> error + pstate" where
  "link_parent comments entry s =
     (case entry of (comment, parent_id) \<Rightarrow>
        (case map_of comments parent_id of
           None \<Rightarrow> Inl (KeyError ''comments[parent_id]'')
         | Some p \<Rightarrow> Inr (set_parent comment p s)))"

text \<open>\<^verbatim>\<open>d.values()\<close> of a dictionary with integer keys.\<close>

definition dict_values :: "penv \<Rightarrow> (int \<times> 'v) list \<Rightarrow> 'v list" where
  "dict_values env d = List.map_filter (map_of d) (int_dict_order env (map fst d))"

definition x_parse_comments :: "penv \<Rightarrow> post \<Rightarrow> pstate \<Rightarrow> error + nat list \<times> pstate" where
  "x_parse_comments env p s =
     bind (for_each (parse_comment env) (findall (po_element p) (textpress ''comment''))
             ([], [], None, s))
       (\<lambda>(comments, unresolved_parents, comment_parser, s1).
          bind (for_each (link_parent comments) unresolved_parents s1) (\<lambda>s2.
            Inr (dict_values env comments, s2)))"

subsection \<open>\<^verbatim>\<open>AtomParser\<close>\<close>

definition remember_author :: "nat \<Rightarrow> pstate \<Rightarrow> pstate" where
  "remember_author a s =
     (let obj = author_objs s ! a;
          s1 = (case a_email obj of
                  None \<Rightarrow> s
                | Some email \<Rightarrow>
                    if authors_by_email s email = None
                    then s\<lparr>authors_by_email := (authors_by_email s)(email \<mapsto> a)\<rparr> else s)
      in case a_username obj of
           None \<Rightarrow> s1
         | Some username \<Rightarrow>
             if authors_by_username s1 username = None
             then s1\<lparr>authors_by_username := (authors_by_username s1)(username \<mapsto> a)\<rparr>
             else s1)"

definition parse_author :: "penv \<Rightarrow> element \<Rightarrow> pstate \<Rightarrow> error + nat \<times> pstate" where
  "parse_author env entry s =
     (case find_elem entry (atom ''author'') of
        None \<Rightarrow> Inl (AttributeError ''author.findtext'')
      | Some author \<Rightarrow>
          let email = findtext author (atom ''email'');
              username = findtext author (atom ''name'')
          in bind (lookup_author env author s) (\<lambda>(rv, s1).
               case rv of
                 Some a \<Rightarrow> Inr (a, remember_author a s1)
               | None \<Rightarrow>
                   (case (case email of None \<Rightarrow> None | Some e \<Rightarrow> authors_by_email s1 e) of
                      Some a \<Rightarrow> Inr (a, s1)
                    | None \<Rightarrow>
                        (case (case username of None \<Rightarrow> None
                               | Some u \<Rightarrow> authors_by_username s1 u) of
                           Some a \<Rightarrow> Inr (a, s1)
                         | None \<Rightarrow>
                             let (a, s2) = new_author
                                   \<lparr>a_username = username, a_email = email,
                                    a_real_name = None, a_description = None, a_www = None,
                                    a_pw_hash = None, a_is_author = None, a_extra = PyNone,
                                    a_privileges = []\<rparr> s1;
                                 s3 = remember_author a s2
                             in Inr (a, s3\<lparr>authors := authors s3 @ [a]\<rparr>)))))"

text \<open>\<^verbatim>\<open>_remember_category(category, element)\<close>; the element has a term where it is called.\<close>

definition remember_category :: "nat \<Rightarrow> string \<Rightarrow> pstate \<Rightarrow> pstate" where
  "remember_category c term s =
     (if categories_by_term s term = None
      then s\<lparr>categories_by_term := (categories_by_term s)(term \<mapsto> c)\<rparr> else s)"

text \<open>One round of the loop of \<^verbatim>\<open>parse_categories\<close>; the state is \<^verbatim>\<open>(tags, categories)\<close>
  and the state of the import.\<close>

definition parse_category_element ::
  "element \<Rightarrow> (nat list \<times> nat list) \<times> pstate \<Rightarrow> error + (nat list \<times> nat list) \<times> pstate" where
  "parse_category_element c st =
     (case st of ((tgs, cats), s) \<Rightarrow>
        bind (tag_or_category c s) (\<lambda>(rv, s1).
          case rv of
            Some (CategoryObject r) \<Rightarrow>
              (case attrib_get c ''term'' of
                 None \<Rightarrow> Inl (KeyError ''term'')
               | Some term \<Rightarrow> Inr ((tgs, cats @ [r]), remember_category r term s1))
          | Some (TagObject r) \<Rightarrow> Inr ((tgs @ [r], cats), s1)
          | None \<Rightarrow>
              (case attrib_get c ''term'' of
                 None \<Rightarrow> Inl (KeyError ''term'')
               | Some term \<Rightarrow>
                   (case categories_by_term s1 term of
                      Some r \<Rightarrow> Inr ((tgs, cats @ [r]), s1)
                    | None \<Rightarrow>
                        let (r, s2) = new_category
                              \<lparr>cat_term = term, cat_label = attrib_get c ''label'',
                               cat_description = None\<rparr> s1;
                            s3 = remember_category r term s2
                        in Inr ((tgs, cats @ [r]), s3\<lparr>categories := categories s3 @ [r]\<rparr>)))))"

definition parse_categories ::
  "element \<Rightarrow> pstate \<Rightarrow> error + (nat list \<times> nat list) \<times> pstate" where
  "parse_categories entry s =
     for_each parse_category_element (findall entry (atom ''category'')) (([], []), s)"

text \<open>\<^verbatim>\<open>AtomParser.parse_comments\<close>: the comments of the extension are appended to the post's.\<close>

definition parse_comments :: "penv \<Rightarrow> post \<Rightarrow> pstate \<Rightarrow> error + post \<times> pstate" where
  "parse_comments env p s =
     bind (x_parse_comments env p s) (\<lambda>(cs, s1).
       Inr (p\<lparr>po_comments := po_comments p @ cs\<rparr>, s1))"

text \<open>\<^verbatim>\<open>entry.findall(textpress.data)[0].text\<close>, the first payload of an entry.\<close>

definition first_data :: "element \<Rightarrow> error + string option" where
  "first_data entry =
     (case findall entry (textpress ''data'') of
        [] \<Rightarrow> Inl (IndexError ''entry.findall(textpress.data)[0]'')
      | d # _ \<Rightarrow> Inr (etext d))"

text \<open>\<^verbatim>\<open>parse_post\<close> up to the \<^verbatim>\<open>Post\<close> object with its content type.\<close>

definition make_post :: "penv \<Rightarrow> element \<Rightarrow> pstate \<Rightarrow> error + post \<times> pstate" where
  "make_post env entry s =
     bind (parse_iso8601 env (findtext entry (atom ''updated''))) (\<lambda>updated.
     bind (case findtext entry (atom ''published'') of
             None \<Rightarrow> Inr updated
           | Some published \<Rightarrow> parse_iso8601 env (Some published)) (\<lambda>published.
     bind (parse_categories entry s) (\<lambda>((tgs, cats), s1).
       let link = (case find_elem entry (atom ''link'') of
                     None \<Rightarrow> None
                   | Some l \<Rightarrow> attrib_get l ''href'')
       in
       bind (first_data entry) (\<lambda>data.
       bind (pickle env data) (\<lambda>pickled.
       bind (dict_get pickled ''parser'' (PyStr ''html'')) (\<lambda>p.
       bind (known_parser env p) (\<lambda>post_parser.
       bind (parse_author env entry s1) (\<lambda>(a, s2).
         let p0 = \<lparr>po_slug = findtext entry (textpress ''slug''),
                   po_title = get_text_content env (findall entry (atom ''title'')),
                   po_link = link,
                   po_pub_date = published,
                   po_author = a,
                   po_intro = get_html_content (findall entry (atom ''summary'')),
                   po_body = get_html_content (findall entry (atom ''content'')),
                   po_tags = tgs,
                   po_categories = cats,
                   po_parser = post_parser,
                   po_updated = updated,
                   po_uid = findtext entry (atom ''id''),
                   po_element = entry,
                   po_content_type = None,
                   po_comments = []\<rparr>;
             content_type = findtext entry (textpress ''content_type'')
         in Inr (if content_type \<noteq> Some ''page'' \<and> content_type \<noteq> Some ''entry''
                 then p0\<lparr>po_content_type := Some ''entry''\<rparr> else p0, s2)))))))))"

definition parse_post :: "penv \<Rightarrow> element \<Rightarrow> pstate \<Rightarrow> error + post \<times> pstate" where
  "parse_post env entry s =
     bind (make_post env entry s) (\<lambda>(p1, s2).
     bind (parse_comments env p1 s2) (\<lambda>(p2, s3).
       Inr (postprocess_post p2, s3)))"

text \<open>\<^verbatim>\<open>AtomParser.__init__\<close> with \<^verbatim>\<open>TPZEAExtension.__init__\<close>, for the root \<open>tree\<close>.\<close>

definition init_parser :: "element \<Rightarrow> pstate" where
  "init_parser tree =
     \<lparr>tags = [], categories = [], authors = [], posts = [],
      categories_by_term = Map.empty, authors_by_username = Map.empty,
      authors_by_email = Map.empty,
      x_authors = Map.empty, x_tags = Map.empty, x_categories = Map.empty,
      x_dependencies = find_elem tree (textpress ''dependencies''),
      author_objs = [], comment_objs = [], tag_objs = [], category_objs = []\<rparr>"

definition append_post :: "penv \<Rightarrow> element \<Rightarrow> pstate \<Rightarrow> error + pstate" where
  "append_post env entry s =
     bind (parse_post env entry s) (\<lambda>(p, s1). Inr (s1\<lparr>posts := posts s1 @ [p]\<rparr>))"

text \<open>\<^verbatim>\<open>AtomParser.parse\<close>; the result is \<^verbatim>\<open>parser.blog\<close> with the final state.\<close>

definition parse :: "penv \<Rightarrow> element \<Rightarrow> pstate \<Rightarrow> error + blog \<times> pstate" where
  "parse env tree s =
     bind (for_each (append_post env) (findall tree (atom ''entry'')) s) (\<lambda>s1.
       let b = \<lparr>b_title = findtext tree (atom ''title''),
                b_link = findtext tree (atom ''link''),
                b_description = findtext tree (atom ''subtitle''),
                b_language = (case attrib_get tree (xml ''lang'') of
                                None \<Rightarrow> ''en'' | Some l \<Rightarrow> l),
                b_tags = tags s1,
                b_categories = categories s1,
                b_posts = posts s1,
                b_authors = authors s1,
                b_element = tree,
                b_configuration = []\<rparr>
       in bind (handle_root b) (\<lambda>b1. Inr (b1, s1)))"

subsection \<open>\<^verbatim>\<open>parse_feed\<close>\<close>

text \<open>
  \<open>tree\<close> is the root element that \<^verbatim>\<open>etree.parse(fd).getroot()\<close> returns.
  \<^verbatim>\<open>RSSParser.__init__\<close> raises before anything else is done.
\<close>

definition parse_feed :: "penv \<Rightarrow> element \<Rightarrow> error + blog \<times> pstate" where
  "parse_feed env tree =
     (if tag tree = ''rss''
        then Inl (FeedImportError ''Importing of RSS feeds is currently not possible.'')
      else if tag tree = atom ''feed''
        then parse env tree (init_parser tree)
      else Inl (FeedImportError ''Unknown feed uploaded.''))"

section \<open>The exporter\<close>

subsection \<open>The exporter's collaborators\<close>

text \<open>
  The entities of TextPress that the \<^verbatim>\<open>Writer\<close> reads, with the attributes it reads.
  A text attribute that may be \<^verbatim>\<open>None\<close> is a \<open>string option\<close>.  \<open>p_url\<close> and \<open>g_url\<close>
  are \<^verbatim>\<open>url_for(post, _external=True)\<close>, \<open>p_body\<close> and \<open>g_body\<close> are \<^verbatim>\<open>body.render()\<close>,
  \<open>p_intro\<close> is \<open>None\<close> when \<^verbatim>\<open>post.intro\<close> is false and \<^verbatim>\<open>post.intro.render()\<close>
  otherwise, and \<open>g_now\<close> is what \<^verbatim>\<open>datetime.utcnow()\<close> returns when the page is dumped.
\<close>

record tp_user =
  u_user_id :: int
  u_username :: "string option"
  u_role :: int
  u_pw_hash :: string
  u_display_name' :: "string option"
  u_first_name :: "string option"
  u_last_name :: "string option"
  u_description :: "string option"
  u_display_name :: "string option"
  u_email :: "string option"
  u_is_manager :: bool

record tp_comment =
  c_comment_id :: int
  c_author :: "string option"
  c_email :: "string option"
  c_www :: "string option"
  c_pub_date :: datetime
  c_blocked :: bool
  c_is_pingback :: bool
  c_blocked_msg :: "string option"
  c_parent_id :: "int option"
  c_status :: int
  c_submitter_ip :: "string option"
  c_raw_body :: pyval
  c_parser_data :: pyval

record tp_tag =
  t_description :: "string option"
  t_slug :: string
  t_name :: string

record tp_post =
  p_title :: "string option"
  p_uid :: "string option"
  p_last_update :: datetime
  p_pub_date :: datetime
  p_url :: string
  p_author :: tp_user
  p_slug :: "string option"
  p_post_id :: int
  p_comments_enabled :: bool
  p_pings_enabled :: bool
  p_status :: int
  p_body :: "string option"
  p_intro :: "string option"
  p_extra :: pyval
  p_raw_body :: pyval
  p_raw_intro :: pyval
  p_parser_data :: pyval
  p_comments :: "tp_comment list"
  p_tags :: "tp_tag list"

record tp_page =
  g_title :: "string option"
  g_page_id :: int
  g_key :: "string option"
  g_url :: string
  g_body :: "string option"
  g_extra :: pyval
  g_raw_body :: pyval
  g_now :: datetime

text \<open>
  Functions of TextPress and of the Python run time.  \<open>build_tag_uri t\<close> is
  \<^verbatim>\<open>build_tag_uri(app, t, 'tpxa_export', 'full')\<close>, \<open>strftime t\<close> is
  \<^verbatim>\<open>t.strftime('%Y-%m-%dT%H:%M:%SZ')\<close>, \<open>dumps_base64 d\<close> is
  \<^verbatim>\<open>dumps(d, 2).encode('base64')\<close> and \<open>base64 s\<close> is \<^verbatim>\<open>s.encode('base64')\<close>.
  \<open>str_dict_order\<close> and \<open>user_dict_order\<close> give the order in which a Python 2
  dictionary iterates, from its keys in insertion order.  \<open>str_accepts v\<close> says
  whether \<^verbatim>\<open>str(v)\<close> returns for the text \<open>v\<close> (it then returns \<open>v\<close>; it raises
  \<^verbatim>\<open>UnicodeEncodeError\<close> for a \<^verbatim>\<open>unicode\<close> text with a character outside ASCII).
\<close>

record wenv =
  build_tag_uri :: "datetime \<Rightarrow> string"
  escape :: "string \<Rightarrow> string"
  version :: string
  strftime :: "datetime \<Rightarrow> string"
  dumps_base64 :: "(string \<times> pyval) list \<Rightarrow> string"
  base64 :: "string \<Rightarrow> string"
  str_dict_order :: "string list \<Rightarrow> string list"
  user_dict_order :: "int list \<Rightarrow> int list"
  str_accepts :: "string \<Rightarrow> bool"

text \<open>
  The application and its database: \<open>cfg\<close> is \<^verbatim>\<open>app.cfg\<close> as \<^verbatim>\<open>iteritems()\<close> lists it,
  with the values as \<^verbatim>\<open>unicode(value)\<close>; \<open>plugins\<close> are the keys of \<^verbatim>\<open>app.plugins\<close>;
  \<open>post_objects\<close> is \<^verbatim>\<open>Post.objects.order_by(Post.last_update.desc())\<close>,
  \<open>user_objects\<close> is \<^verbatim>\<open>User.objects.all()\<close>, \<open>page_objects\<close> is
  \<^verbatim>\<open>Page.objects.all()\<close> of the pages plugin, \<open>None\<close> when importing or querying it
  raises; \<open>utcnow\<close> is the clock when \<^verbatim>\<open>_generate\<close> starts.
\<close>

record app =
  cfg :: "(string \<times> string) list"
  plugins :: "string list"
  post_objects :: "tp_post list"
  user_objects :: "tp_user list"
  page_objects :: "tp_page list option"
  utcnow :: datetime

text \<open>
  A participant: \<open>has_setup\<close> says whether the object has a method \<^verbatim>\<open>setup\<close> (the
  class \<^verbatim>\<open>Participant\<close> defines \<^verbatim>\<open>before_dump\<close>, \<^verbatim>\<open>dump_data\<close>, \<^verbatim>\<open>process_post\<close> and
  \<^verbatim>\<open>process_user\<close>, and no \<^verbatim>\<open>setup\<close>); \<open>dump_data\<close> is what \<^verbatim>\<open>dump_data()\<close> returns; the
  other hooks change the node they are given.  \<^verbatim>\<open>process_post\<close> is called with posts
  and with pages.  The hooks themselves are taken not to raise.
\<close>

record participant =
  has_setup :: bool
  dump_data :: "element option"
  process_post :: "element \<Rightarrow> tp_post \<Rightarrow> element"
  process_page :: "element \<Rightarrow> tp_page \<Rightarrow> element"
  process_user :: "element \<Rightarrow> tp_user \<Rightarrow> element"

text \<open>The base class \<^verbatim>\<open>Participant\<close>: every hook is \<^verbatim>\<open>pass\<close>.\<close>

definition Participant :: participant where
  "Participant =
     \<lparr>has_setup = False, dump_data = None, process_post = (\<lambda>node p. node),
      process_page = (\<lambda>node g. node), process_user = (\<lambda>node u. node)\<rparr>"

text \<open>
  The \<^verbatim>\<open>Writer\<close>.  \<open>keep_as_tags\<close> is \<open>None\<close> when \<^verbatim>\<open>main\<close> passes
  \<^verbatim>\<open>options.keep_as_tag\<close> and no \<^verbatim>\<open>--keep-as-tag\<close> was given.  The dictionaries
  \<^verbatim>\<open>_dependencies\<close>, \<^verbatim>\<open>users\<close> and \<^verbatim>\<open>db_users\<close> list their keys in insertion order.
\<close>

record writer =
  description_to_category :: bool
  tags_to_categories :: bool
  keep_as_tags :: "string list option"
  dependencies :: "(string \<times> element) list"
  users :: "(int \<times> element) list"
  db_users :: "(int \<times> tp_user) list"
  participants :: "participant list"

text \<open>\<^verbatim>\<open>Writer.__init__\<close>\<close>

definition Writer :: "bool \<Rightarrow> bool \<Rightarrow> string list option \<Rightarrow> participant list \<Rightarrow> writer" where
  "Writer d2c t2c keep ps =
     \<lparr>description_to_category = d2c, tags_to_categories = t2c, keep_as_tags = keep,
      dependencies = [], users = [], db_users = [], participants = ps\<rparr>"

text \<open>What \<^verbatim>\<open>_generate\<close> yields: the preamble with the values put into it, the text of
  a node (\<^verbatim>\<open>dump_node(node)\<close>, kept as the node), or a literal string.\<close>

record preamble =
  pre_version :: string
  pre_title :: string
  pre_subtitle :: string
  pre_id :: string
  pre_blog_url :: string
  pre_updated :: string

datatype chunk = Preamble preamble | Node element | Literal string

definition XML_EPILOG :: string where
  "XML_EPILOG = ''</a:feed>''"

definition format_iso8601 :: "wenv \<Rightarrow> datetime \<Rightarrow> string" where
  "format_iso8601 env obj = strftime env obj"

text \<open>\<^verbatim>\<open>x and 'yes' or 'no'\<close>\<close>

definition yes_no :: "bool \<Rightarrow> string" where
  "yes_no b = (if b then ''yes'' else ''no'')"

subsection \<open>Dependencies and users\<close>

text \<open>\<^verbatim>\<open>new_dependency(tag)\<close>: the node and the writer with the node in the table.\<close>

definition new_dependency :: "string \<Rightarrow> writer \<Rightarrow> element \<times> writer" where
  "new_dependency t w =
     (let id = hex (length (dependencies w) + 1);
          node = Element t [(textpress ''dependency'', id)] None []
      in (node, w\<lparr>dependencies := AList.update id node (dependencies w)\<rparr>))"

text \<open>
  \<^verbatim>\<open>_register_user(user)\<close>.  The node in \<^verbatim>\<open>_dependencies\<close> and the one in \<^verbatim>\<open>users\<close> are
  the same object, which gets its children and is handed to the participants after
  it was stored; both tables hold the finished node, which is \<open>user_node\<close> for
  the id of the user.
\<close>

definition user_children :: "wenv \<Rightarrow> tp_user \<Rightarrow> element list" where
  "user_children env user =
     [Element (textpress ''username'') [] (u_username user) [],
      Element (textpress ''role'') [] (Some (str (u_role user))) [],
      Element (textpress ''pw_hash'') [] (Some (base64 env (u_pw_hash user))) [],
      Element (textpress ''display_name'') [] (u_display_name' user) [],
      Element (textpress ''first_name'') [] (u_first_name user) [],
      Element (textpress ''last_name'') [] (u_last_name user) [],
      Element (textpress ''description'') [] (u_description user) []]"

definition user_node :: "wenv \<Rightarrow> participant list \<Rightarrow> string \<Rightarrow> tp_user \<Rightarrow> element" where
  "user_node env ps dependency user =
     fold (\<lambda>participant n. process_user participant n user) ps
       (Element (textpress ''user'') [(textpress ''dependency'', dependency)] None
          (user_children env user))"

definition register_user :: "wenv \<Rightarrow> tp_user \<Rightarrow> writer \<Rightarrow> writer" where
  "register_user env user w =
     (let (node, w1) = new_dependency (textpress ''user'') w;
          id = hex (length (dependencies w) + 1);
          rv0 = Element (tag node) (attrib node) (etext node) (user_children env user);
          rv = fold (\<lambda>participant n. process_user participant n user) (participants w) rv0
      in w1\<lparr>dependencies := AList.update id rv (dependencies w1),
            users := AList.update (u_user_id user) rv (users w1),
            db_users := AList.update (u_user_id user) user (db_users w1)\<rparr>)"

subsection \<open>Entries\<close>

text \<open>\<^verbatim>\<open>self.users[user_id].attrib[self.tp.dependency]\<close>\<close>

definition user_dependency :: "writer \<Rightarrow> int \<Rightarrow> error + string" where
  "user_dependency w user_id =
     (case map_of (users w) user_id of
        None \<Rightarrow> Inl (KeyError ''users[user_id]'')
      | Some node \<Rightarrow>
          (case attrib_get node (textpress ''dependency'') of
             None \<Rightarrow> Inl (KeyError ''attrib[tp.dependency]'')
           | Some dependency \<Rightarrow> Inr dependency))"

text \<open>
  \<^verbatim>\<open>str(c.blocked_msg or '')\<close>, and the \<^verbatim>\<open>tp:comment\<close> element of one comment of a
  post when that call returns.
\<close>

definition blocked_msg_text :: "wenv \<Rightarrow> tp_comment \<Rightarrow> error + string" where
  "blocked_msg_text env c =
     (let m = (if truthy (c_blocked_msg c) then the (c_blocked_msg c) else []) in
      if str_accepts env m then Inr m else Inl (UnicodeEncodeError ''str(c.blocked_msg)''))"

definition dump_comment :: "wenv \<Rightarrow> tp_comment \<Rightarrow> element" where
  "dump_comment env c =
     Element (textpress ''comment'') [] None
       [Element (textpress ''id'') [] (Some (str (c_comment_id c))) [],
        Element (textpress ''author'') [] None
          [Element (textpress ''name'') [] (c_author c) [],
           Element (textpress ''email'') [] (c_email c) [],
           Element (textpress ''uri'') [] (c_www c) []],
        Element (textpress ''published'') [] (Some (format_iso8601 env (c_pub_date c))) [],
        Element (textpress ''blocked'') [] (Some (yes_no (c_blocked c))) [],
        Element (textpress ''is_pingback'') [] (Some (yes_no (c_is_pingback c))) [],
        Element (textpress ''blocked_msg'') []
          (Some (if truthy (c_blocked_msg c) then the (c_blocked_msg c) else [])) [],
        Element (textpress ''parent'') []
          (Some (case c_parent_id c of None \<Rightarrow> [] | Some parent_id \<Rightarrow> str parent_id)) [],
        Element (textpress ''status'') [] (Some (str (c_status c))) [],
        Element (textpress ''submitter_ip'') []
          (Some (if truthy (c_submitter_ip c) then the (c_submitter_ip c) else ''0.0.0.0'')) [],
        Element (textpress ''data'') []
          (Some (dumps_base64 env
                   [(''raw_body'', c_raw_body c), (''parser_data'', c_parser_data c)])) []]"

text \<open>
  The scheme of the \<^verbatim>\<open>category\<close> element of a tag:
  \<^verbatim>\<open>((tag.description and self.description_to_category) or self.tags_to_categories)
  and tag.slug not in self.keep_as_tags\<close>; the membership test is evaluated only when
  the first operand is true, and it raises when \<^verbatim>\<open>keep_as_tags\<close> is \<^verbatim>\<open>None\<close>.
\<close>

definition tag_scheme :: "writer \<Rightarrow> tp_tag \<Rightarrow> error + string" where
  "tag_scheme w t =
     (if (truthy (t_description t) \<and> description_to_category w) \<or> tags_to_categories w
      then (case keep_as_tags w of
              None \<Rightarrow> Inl (TypeError ''argument of type NoneType is not iterable'')
            | Some keep \<Rightarrow>
                Inr (if t_slug t \<notin> set keep then TEXTPRESS_CATEGORY_URI
                     else TEXTPRESS_TAG_URI))
      else Inr TEXTPRESS_TAG_URI)"

definition dump_tag :: "writer \<Rightarrow> tp_tag \<Rightarrow> error + element" where
  "dump_tag w t =
     bind (tag_scheme w t) (\<lambda>scheme.
       Inr (Element (atom ''category'')
              ([(''term'', t_slug t), (''scheme'', scheme)]
               @ (if t_slug t \<noteq> t_name t then [(''label'', t_name t)] else []))
              None []))"

text \<open>The loop over \<^verbatim>\<open>post.tags\<close>: the elements made before the first exception.\<close>

fun dump_tags :: "writer \<Rightarrow> tp_tag list \<Rightarrow> error + element list" where
  "dump_tags w [] = Inr []"
| "dump_tags w (t # ts) =
     bind (dump_tag w t) (\<lambda>e. bind (dump_tags w ts) (\<lambda>es. Inr (e # es)))"

text \<open>The loop over \<^verbatim>\<open>post.comments\<close>: the elements made before the first exception.\<close>

fun dump_comments :: "wenv \<Rightarrow> tp_comment list \<Rightarrow> error + element list" where
  "dump_comments env [] = Inr []"
| "dump_comments env (c # cs) =
     bind (blocked_msg_text env c) (\<lambda>m.
     bind (dump_comments env cs) (\<lambda>es. Inr (dump_comment env c # es)))"

text \<open>The entry of a post before the participants see it.\<close>

definition post_entry :: "wenv \<Rightarrow> writer \<Rightarrow> tp_post \<Rightarrow> error + element" where
  "post_entry env w p =
     bind (user_dependency w (u_user_id (p_author p))) (\<lambda>dependency.
     bind (dump_comments env (p_comments p)) (\<lambda>comments.
     bind (dump_tags w (p_tags p)) (\<lambda>categories.
       Inr (Element (atom ''entry'') [(''xml:base'', p_url p)] None
              ([Element (atom ''title'') [(''type'', ''text'')] (p_title p) [],
                Element (atom ''id'') [] (p_uid p) [],
                Element (atom ''updated'') [] (Some (format_iso8601 env (p_last_update p))) [],
                Element (atom ''published'') [] (Some (format_iso8601 env (p_pub_date p))) [],
                Element (atom ''link'') [(''href'', p_url p)] None [],
                Element (atom ''author'') [(textpress ''dependency'', dependency)] None
                  [Element (atom ''name'') [] (u_display_name (p_author p)) [],
                   Element (atom ''email'') [] (u_email (p_author p)) []],
                Element (textpress ''slug'') [] (p_slug p) [],
                Element (textpress ''id'') [] (Some (str (p_post_id p))) [],
                Element (textpress ''comments_enabled'') []
                  (Some (yes_no (p_comments_enabled p))) [],
                Element (textpress ''pings_enabled'') [] (Some (yes_no (p_pings_enabled p))) [],
                Element (textpress ''status'') [] (Some (str (p_status p))) [],
                Element (atom ''content'') [(''type'', ''html'')] (p_body p) []]
               @ (case p_intro p of
                    None \<Rightarrow> []
                  | Some intro \<Rightarrow> [Element (atom ''summary'') [(''type'', ''html'')] (Some intro) []])
               @ [Element (textpress ''content_type'') [] (Some ''entry'') [],
                  Element (textpress ''data'') []
                    (Some (dumps_base64 env
                             [(''extra'', p_extra p), (''raw_body'', p_raw_body p),
                              (''raw_intro'', p_raw_intro p),
                              (''parser_data'', p_parser_data p)])) []]
               @ comments
               @ categories)))))"

text \<open>\<^verbatim>\<open>_dump_post(post)\<close>\<close>

definition dump_post :: "wenv \<Rightarrow> writer \<Rightarrow> tp_post \<Rightarrow> error + element" where
  "dump_post env w p =
     bind (post_entry env w p) (\<lambda>entry.
       Inr (fold (\<lambda>participant n. process_post participant n p) (participants w) entry))"

text \<open>
  \<^verbatim>\<open>[u for u in self.db_users if self.db_users[u].is_manager][0]\<close>: the first manager
  in the order of the dictionary.
\<close>

definition first_manager :: "wenv \<Rightarrow> writer \<Rightarrow> error + int \<times> tp_user" where
  "first_manager env w =
     (case filter (\<lambda>(k, u). u_is_manager u)
             (List.map_filter (\<lambda>k. map_option (Pair k) (map_of (db_users w) k))
                (user_dict_order env (map fst (db_users w)))) of
        [] \<Rightarrow> Inl (IndexError ''[u for u in self.db_users if ...][0]'')
      | m # _ \<Rightarrow> Inr m)"

text \<open>\<^verbatim>\<open>_dump_page(page)\<close>; the payload dictionary names \<^verbatim>\<open>'extra'\<close> twice.\<close>

definition dump_page :: "wenv \<Rightarrow> writer \<Rightarrow> tp_page \<Rightarrow> error + element" where
  "dump_page env w g =
     bind (first_manager env w) (\<lambda>(user, db_user).
     bind (user_dependency w user) (\<lambda>dependency.
       let entry =
             Element (atom ''entry'') [(''xml:base'', g_url g)] None
               [Element (atom ''title'') [(''type'', ''text'')] (g_title g) [],
                Element (atom ''id'') [] (Some (str (g_page_id g))) [],
                Element (atom ''updated'') [] (Some (format_iso8601 env (g_now g))) [],
                Element (atom ''published'') [] (Some (format_iso8601 env (g_now g))) [],
                Element (atom ''link'') [(''href'', g_url g)] None [],
                Element (atom ''author'') [(textpress ''dependency'', dependency)] None
                  [Element (atom ''name'') [] (u_display_name db_user) [],
                   Element (atom ''email'') [] (u_email db_user) []],
                Element (textpress ''slug'') [] (g_key g) [],
                Element (textpress ''id'') [] (Some (str (g_page_id g))) [],
                Element (atom ''content'') [(''type'', ''html'')] (g_body g) [],
                Element (textpress ''content_type'') [] (Some ''page'') [],
                Element (textpress ''data'') []
                  (Some (dumps_base64 env
                           [(''extra'', g_extra g), (''raw_body'', g_raw_body g)])) []]
       in Inr (fold (\<lambda>participant n. process_page participant n g) (participants w) entry)))"

subsection \<open>\<^verbatim>\<open>_generate\<close>\<close>

text \<open>
  A generator yields chunks until it returns or raises: the result is the list of
  the chunks yielded and the exception, if any, that ended it.  \<open>and_then a b\<close> runs
  \<open>b\<close> after \<open>a\<close> unless \<open>a\<close> raised.
\<close>

type_synonym chunks = "chunk list \<times> error option"

definition and_then :: "chunks \<Rightarrow> chunks \<Rightarrow> chunks" where
  "and_then a b = (case snd a of Some e \<Rightarrow> a | None \<Rightarrow> (fst a @ fst b, snd b))"

definition yield :: "chunk \<Rightarrow> chunks" where
  "yield c = ([c], None)"

definition raise :: "error \<Rightarrow> chunks" where
  "raise e = ([], Some e)"

text \<open>A loop \<^verbatim>\<open>for x in xs: yield dump_node(f(x))\<close>.\<close>

fun dump_all :: "('a \<Rightarrow> error + element) \<Rightarrow> 'a list \<Rightarrow> chunks" where
  "dump_all f [] = ([], None)"
| "dump_all f (x # xs) =
     (case f x of
        Inl e \<Rightarrow> raise e
      | Inr node \<Rightarrow> and_then (yield (Node node)) (dump_all f xs))"

text \<open>
  The head of \<^verbatim>\<open>_generate\<close>: the variable \<^verbatim>\<open>pages\<close> is bound only when the pages plugin
  is active (\<open>None\<close>: unbound), and the \<^verbatim>\<open>try\<close> block takes the first post and the
  first page.  The result is \<^verbatim>\<open>last_update\<close>, what the iterator \<^verbatim>\<open>posts\<close> still
  yields, and \<^verbatim>\<open>pages\<close>.  \<^verbatim>\<open>StopIteration\<close> from either \<^verbatim>\<open>next()\<close> is caught; reading
  the unbound \<^verbatim>\<open>pages\<close> is not.
\<close>

definition pages_variable :: "app \<Rightarrow> tp_page list option" where
  "pages_variable a =
     (if ''pages'' \<in> set (plugins a)
      then Some (case page_objects a of None \<Rightarrow> [] | Some gs \<Rightarrow> gs)
      else None)"

definition first_items ::
  "app \<Rightarrow> error + datetime \<times> tp_post list \<times> tp_page list option" where
  "first_items a =
     (let now = utcnow a; pages = pages_variable a in
      case post_objects a of
        [] \<Rightarrow> Inr (now, [], pages)
      | first_post # more_posts \<Rightarrow>
          (case pages of
             None \<Rightarrow> Inl (UnboundLocalError ''pages'')
           | Some [] \<Rightarrow> Inr (now, more_posts, Some [])
           | Some (first_page # more_pages) \<Rightarrow>
               Inr (p_last_update first_post, first_post # more_posts,
                    Some (first_page # more_pages))))"

definition cfg_get :: "app \<Rightarrow> string \<Rightarrow> error + string" where
  "cfg_get a k = (case map_of (cfg a) k of None \<Rightarrow> Inl (KeyError k) | Some v \<Rightarrow> Inr v)"

definition make_preamble :: "wenv \<Rightarrow> app \<Rightarrow> datetime \<Rightarrow> error + preamble" where
  "make_preamble env a last_update =
     (let feed_id = build_tag_uri env last_update in
      bind (cfg_get a ''blog_title'') (\<lambda>title.
      bind (cfg_get a ''blog_tagline'') (\<lambda>subtitle.
      bind (cfg_get a ''blog_url'') (\<lambda>blog_url.
        Inr \<lparr>pre_version = escape env (version env),
             pre_title = escape env title,
             pre_subtitle = escape env subtitle,
             pre_id = escape env feed_id,
             pre_blog_url = escape env blog_url,
             pre_updated = format_iso8601 env last_update\<rparr>))))"

text \<open>\<^verbatim>\<open>for participant in self.participants: participant.setup()\<close>\<close>

fun setup_all :: "participant list \<Rightarrow> chunks" where
  "setup_all [] = ([], None)"
| "setup_all (participant # ps) =
     (if has_setup participant then setup_all ps
      else raise (AttributeError ''participant.setup''))"

definition configuration :: "app \<Rightarrow> element" where
  "configuration a =
     Element (textpress ''configuration'') [] None
       (map (\<lambda>(key, v). Element (textpress ''item'') [(''key'', key)] (Some v) []) (cfg a))"

definition plugin_trees :: "participant list \<Rightarrow> chunk list" where
  "plugin_trees ps = map Node (List.map_filter dump_data ps)"

text \<open>\<^verbatim>\<open>for user in User.objects.all(): self._register_user(user)\<close>\<close>

definition register_users :: "wenv \<Rightarrow> tp_user list \<Rightarrow> writer \<Rightarrow> writer" where
  "register_users env us w = fold (register_user env) us w"

text \<open>\<^verbatim>\<open>self._dependencies.itervalues()\<close>\<close>

definition itervalues :: "wenv \<Rightarrow> (string \<times> 'v) list \<Rightarrow> 'v list" where
  "itervalues env d = List.map_filter (map_of d) (str_dict_order env (map fst d))"

definition dependencies_block :: "wenv \<Rightarrow> writer \<Rightarrow> chunk list" where
  "dependencies_block env w =
     (if dependencies w \<noteq> []
      then [Literal ''<tp:dependencies>''] @ map Node (itervalues env (dependencies w))
           @ [Literal ''</tp:dependencies>'']
      else [])"

text \<open>The loop over \<^verbatim>\<open>pages\<close>, which raises when the variable is unbound.\<close>

definition dump_pages :: "wenv \<Rightarrow> writer \<Rightarrow> tp_page list option \<Rightarrow> chunks" where
  "dump_pages env w pages =
     (case pages of
        None \<Rightarrow> raise (UnboundLocalError ''pages'')
      | Some gs \<Rightarrow> dump_all (dump_page env w) gs)"

definition generate :: "wenv \<Rightarrow> app \<Rightarrow> writer \<Rightarrow> chunks" where
  "generate env a w =
     (case first_items a of
        Inl e \<Rightarrow> raise e
      | Inr (last_update, posts_iter, pages) \<Rightarrow>
          (case make_preamble env a last_update of
             Inl e \<Rightarrow> raise e
           | Inr pre \<Rightarrow>
               and_then (yield (Preamble pre))
              (and_then (setup_all (participants w))
              (and_then (yield (Node (configuration a)))
              (and_then (plugin_trees (participants w), None)
              (let w1 = register_users env (user_objects a) w in
               and_then (dump_all (dump_post env w1) posts_iter)
              (and_then (dump_pages env w1 pages)
              (and_then (dependencies_block env w1, None)
                        (yield (Literal XML_EPILOG))))))))))"

subsection \<open>The exporter of \<^verbatim>\<open>textpress_exporter.py\<close> at the top of the repository\<close>

text \<open>
  The older copy of the module: its \<^verbatim>\<open>Writer\<close> takes no options and has no
  \<^verbatim>\<open>db_users\<close>, \<^verbatim>\<open>_generate\<close> knows no pages, and \<^verbatim>\<open>_dump_post\<close> writes no content type,
  no submitter address and no categories.  The definitions use the record \<open>writer\<close>
  and leave its other fields alone.
\<close>

definition legacy_register_user :: "wenv \<Rightarrow> tp_user \<Rightarrow> writer \<Rightarrow> writer" where
  "legacy_register_user env user w =
     (let (node, w1) = new_dependency (textpress ''user'') w;
          id = hex (length (dependencies w) + 1);
          rv0 = Element (tag node) (attrib node) (etext node) (user_children env user);
          rv = fold (\<lambda>participant n. process_user participant n user) (participants w) rv0
      in w1\<lparr>dependencies := AList.update id rv (dependencies w1),
            users := AList.update (u_user_id user) rv (users w1)\<rparr>)"

definition legacy_dump_comment :: "wenv \<Rightarrow> tp_comment \<Rightarrow> element" where
  "legacy_dump_comment env c =
     Element (textpress ''comment'') [] None
       [Element (textpress ''id'') [] (Some (str (c_comment_id c))) [],
        Element (textpress ''author'') [] None
          [Element (textpress ''name'') [] (c_author c) [],
           Element (textpress ''email'') [] (c_email c) [],
           Element (textpress ''uri'') [] (c_www c) []],
        Element (textpress ''published'') [] (Some (format_iso8601 env (c_pub_date c))) [],
        Element (textpress ''blocked'') [] (Some (yes_no (c_blocked c))) [],
        Element (textpress ''is_pingback'') [] (Some (yes_no (c_is_pingback c))) [],
        Element (textpress ''blocked_msg'') []
          (Some (if truthy (c_blocked_msg c) then the (c_blocked_msg c) else [])) [],
        Element (textpress ''parent'') []
          (Some (case c_parent_id c of None \<Rightarrow> [] | Some parent_id \<Rightarrow> str parent_id)) [],
        Element (textpress ''status'') [] (Some (str (c_status c))) [],
        Element (textpress ''data'') []
          (Some (dumps_base64 env
                   [(''raw_body'', c_raw_body c), (''parser_data'', c_parser_data c)])) []]"

fun legacy_dump_comments :: "wenv \<Rightarrow> tp_comment list \<Rightarrow> error + element list" where
  "legacy_dump_comments env [] = Inr []"
| "legacy_dump_comments env (c # cs) =
     bind (blocked_msg_text env c) (\<lambda>m.
     bind (legacy_dump_comments env cs) (\<lambda>es. Inr (legacy_dump_comment env c # es)))"

definition legacy_post_entry :: "wenv \<Rightarrow> writer \<Rightarrow> tp_post \<Rightarrow> error + element" where
  "legacy_post_entry env w p =
     bind (user_dependency w (u_user_id (p_author p))) (\<lambda>dependency.
     bind (legacy_dump_comments env (p_comments p)) (\<lambda>comments.
       Inr (Element (atom ''entry'') [(''xml:base'', p_url p)] None
              ([Element (atom ''title'') [(''type'', ''text'')] (p_title p) [],
                Element (atom ''id'') [] (p_uid p) [],
                Element (atom ''updated'') [] (Some (format_iso8601 env (p_last_update p))) [],
                Element (atom ''published'') [] (Some (format_iso8601 env (p_pub_date p))) [],
                Element (atom ''link'') [(''href'', p_url p)] None [],
                Element (atom ''author'') [(textpress ''dependency'', dependency)] None
                  [Element (atom ''name'') [] (u_display_name (p_author p)) [],
                   Element (atom ''email'') [] (u_email (p_author p)) []],
                Element (textpress ''slug'') [] (p_slug p) [],
                Element (textpress ''id'') [] (Some (str (p_post_id p))) [],
                Element (textpress ''comments_enabled'') []
                  (Some (yes_no (p_comments_enabled p))) [],
                Element (textpress ''pings_enabled'') [] (Some (yes_no (p_pings_enabled p))) [],
                Element (textpress ''status'') [] (Some (str (p_status p))) [],
                Element (atom ''content'') [(''type'', ''html'')] (p_body p) []]
               @ (case p_intro p of
                    None \<Rightarrow> []
                  | Some intro \<Rightarrow> [Element (atom ''summary'') [(''type'', ''html'')] (Some intro) []])
               @ [Element (textpress ''data'') []
                    (Some (dumps_base64 env
                             [(''extra'', p_extra p), (''raw_body'', p_raw_body p),
                              (''raw_intro'', p_raw_intro p),
                              (''parser_data'', p_parser_data p)])) []]
               @ comments))))"

definition legacy_dump_post :: "wenv \<Rightarrow> writer \<Rightarrow> tp_post \<Rightarrow> error + element" where
  "legacy_dump_post env w p =
     bind (legacy_post_entry env w p) (\<lambda>entry.
       Inr (fold (\<lambda>participant n. process_post participant n p) (participants w) entry))"

text \<open>The \<^verbatim>\<open>try\<close> block: \<^verbatim>\<open>last_update\<close> is that of the first post, or the clock.\<close>

definition legacy_last_update :: "app \<Rightarrow> datetime" where
  "legacy_last_update a =
     (case post_objects a of [] \<Rightarrow> utcnow a | first_post # more_posts \<Rightarrow> p_last_update first_post)"

definition legacy_generate :: "wenv \<Rightarrow> app \<Rightarrow> writer \<Rightarrow> chunks" where
  "legacy_generate env a w =
     (case make_preamble env a (legacy_last_update a) of
        Inl e \<Rightarrow> raise e
      | Inr pre \<Rightarrow>
          and_then (yield (Preamble pre))
         (and_then (setup_all (participants w))
         (and_then (yield (Node (configuration a)))
         (and_then (plugin_trees (participants w), None)
         (let w1 = fold (legacy_register_user env) (user_objects a) w in
          and_then (dump_all (legacy_dump_post env w1) (post_objects a))
         (and_then (dependencies_block env w1, None)
                   (yield (Literal XML_EPILOG))))))))"

subsection \<open>Reading the output\<close>

text \<open>
  What a reader of the chunks sees: the feed-level \<^verbatim>\<open>updated\<close> of the preamble, the
  entries, and the dependency ids of the nodes that carry one, in the order of the
  output.
\<close>

fun feed_updated :: "chunk list \<Rightarrow> string option" where
  "feed_updated [] = None"
| "feed_updated (Preamble pre # cs) = Some (pre_updated pre)"
| "feed_updated (Node n # cs) = feed_updated cs"
| "feed_updated (Literal l # cs) = feed_updated cs"

fun feed_id :: "chunk list \<Rightarrow> string option" where
  "feed_id [] = None"
| "feed_id (Preamble pre # cs) = Some (pre_id pre)"
| "feed_id (Node n # cs) = feed_id cs"
| "feed_id (Literal l # cs) = feed_id cs"

fun emitted_entries :: "chunk list \<Rightarrow> element list" where
  "emitted_entries [] = []"
| "emitted_entries (Node n # cs) =
     (if tag n = atom ''entry'' then n # emitted_entries cs else emitted_entries cs)"
| "emitted_entries (Preamble pre # cs) = emitted_entries cs"
| "emitted_entries (Literal l # cs) = emitted_entries cs"

fun dependency_ids :: "chunk list \<Rightarrow> string list" where
  "dependency_ids [] = []"
| "dependency_ids (Node n # cs) =
     (case attrib_get n (textpress ''dependency'') of
        None \<Rightarrow> dependency_ids cs
      | Some d \<Rightarrow> d # dependency_ids cs)"
| "dependency_ids (Preamble pre # cs) = dependency_ids cs"
| "dependency_ids (Literal l # cs) = dependency_ids cs"

subsection \<open>The document of an export\<close>

text \<open>
  The chunks are written to a file one after the other (\<^verbatim>\<open>main\<close>), and the importer
  parses the file.  Writing a node and parsing it again is taken to give the node
  back, except that an element with an empty text has no text and that the attribute
  written as \<^verbatim>\<open>xml:base\<close> is read in the XML namespace.  The preamble opens the root
  \<^verbatim>\<open>feed\<close> and holds its first children; the parser undoes the escaping (\<open>unescape\<close>).
  Output that an exception cut short is not a document.
\<close>

fun reparse :: "element \<Rightarrow> element" where
  "reparse (Element t as tx cs) =
     Element t (map (\<lambda>(k, v). (if k = ''xml:base'' then xml ''base'' else k, v)) as)
       (if tx = Some [] then None else tx) (map reparse cs)"





text \<open>
  The document without the \<^verbatim>\<open>tp:parent\<close> elements that have no text, which are what
  the exporter writes for a comment without a parent: in a comment, in the comments
  of an entry, and in the entries of a feed.
\<close>

definition without_empty_parent :: "element \<Rightarrow> element" where
  "without_empty_parent c =
     Element (tag c) (attrib c) (etext c)
       (filter (\<lambda>e. \<not> (tag e = textpress ''parent'' \<and> etext e = None)) (children c))"

definition without_empty_parents :: "element \<Rightarrow> element" where
  "without_empty_parents entry =
     Element (tag entry) (attrib entry) (etext entry)
       (map (\<lambda>c. if tag c = textpress ''comment'' then without_empty_parent c else c)
          (children entry))"


section \<open>The run time\<close>

subsection \<open>The order of a Python 2 dictionary\<close>

text \<open>
  CPython 2.7 keeps a dictionary in a hash table with open addressing and iterates
  over the slots of the table, so the order of the keys is decided by their hashes
  and not by the order of insertion.  The definitions follow \<^verbatim>\<open>string_hash\<close>
  (\<^verbatim>\<open>Objects/stringobject.c\<close>), \<^verbatim>\<open>int_hash\<close> (\<^verbatim>\<open>Objects/intobject.c\<close>) and
  \<^verbatim>\<open>lookdict\<close>, \<^verbatim>\<open>insertdict\<close>, \<^verbatim>\<open>dictresize\<close> and \<^verbatim>\<open>PyDict_SetItem\<close>
  (\<^verbatim>\<open>Objects/dictobject.c\<close>) for a 64-bit \<^verbatim>\<open>long\<close>, without hash randomisation, for
  keys that are inserted once and never deleted.  A table starts with 8 slots; after
  an insertion that fills two thirds of it, it is rebuilt with the least power of two
  above four times (twice, beyond 50000) the number of keys.  The slot of a hash is
  \<^verbatim>\<open>hash & mask\<close>, where the mask is the size of the table less one.  The probe for a
  free slot stops after \<open>fuel\<close> steps; the sequence of CPython visits every slot, so
  the bound is not met.
\<close>

definition string_hash :: "string \<Rightarrow> 64 word" where
  "string_hash s =
     (case s of
        [] \<Rightarrow> 0
      | c # _ \<Rightarrow>
          (let x = fold (\<lambda>c x. (1000003 * x) XOR of_char c) s (push_bit 7 (of_char c));
               y = x XOR of_nat (length s)
           in if y = - 1 then - 2 else y))"

definition int_hash :: "int \<Rightarrow> 64 word" where
  "int_hash v = (let x = (of_int v :: 64 word) in if x = - 1 then - 2 else x)"

fun probe :: "nat \<Rightarrow> 'k option list \<Rightarrow> 64 word \<Rightarrow> 64 word \<Rightarrow> nat option" where
  "probe 0 slots i perturb = None"
| "probe (Suc fuel) slots i perturb =
     (let j = unat (i AND of_nat (length slots - 1)) in
      if slots ! j = None then Some j
      else probe fuel slots (5 * i + perturb + 1) (drop_bit 5 perturb))"

definition insertdict :: "('k \<Rightarrow> 64 word) \<Rightarrow> 'k \<Rightarrow> 'k option list \<Rightarrow> 'k option list" where
  "insertdict h k slots =
     (case probe (length slots + 14) slots (h k AND of_nat (length slots - 1)) (h k) of
        None \<Rightarrow> slots
      | Some j \<Rightarrow> slots[j := Some k])"

function newsize :: "nat \<Rightarrow> nat \<Rightarrow> nat" where
  "newsize n minused = (if 0 < n \<and> n \<le> minused then newsize (2 * n) minused else n)"
  by pat_completeness auto
termination
  by (relation "measure (\<lambda>(n, minused). minused + 1 - n)") auto

definition active :: "'k option list \<Rightarrow> 'k list" where
  "active slots = List.map_filter (\<lambda>x. x) slots"

definition dictresize :: "('k \<Rightarrow> 64 word) \<Rightarrow> nat \<Rightarrow> 'k option list \<Rightarrow> 'k option list" where
  "dictresize h minused slots =
     fold (insertdict h) (active slots) (replicate (newsize 8 minused) None)"

definition dict_setitem :: "('k \<Rightarrow> 64 word) \<Rightarrow> 'k \<Rightarrow> 'k option list \<Rightarrow> 'k option list" where
  "dict_setitem h k slots =
     (let slots1 = insertdict h k slots; used = length (active slots1) in
      if used * 3 \<ge> length slots1 * 2
      then dictresize h ((if used > 50000 then 2 else 4) * used) slots1
      else slots1)"

definition py2_dict_order :: "('k \<Rightarrow> 64 word) \<Rightarrow> 'k list \<Rightarrow> 'k list" where
  "py2_dict_order h ks = active (fold (dict_setitem h) ks (replicate 8 None))"

subsection \<open>An example environment\<close>

text \<open>
  A stand-in for the collaborators, to run the definitions on concrete inputs: an
  instant is written as the decimal number of its seconds, every payload is the
  text \<open>payload\<close> and decodes to an empty dictionary, the parsers are \<open>html\<close> and
  \<open>zeml\<close>, there are no privileges, text is passed through unchanged, numbers and
  white space are those of ASCII, \<^verbatim>\<open>str\<close> accepts the texts of ASCII characters, and
  dictionaries iterate as in CPython 2.7.
\<close>

text \<open>
  Text of ASCII characters: \<open>strip\<close> removes the white space at both ends, and
  \<open>int_of_str\<close> reads an optional sign and at least one decimal digit between white
  space.
\<close>

definition is_space :: "char \<Rightarrow> bool" where
  "is_space c = (c \<in> {CHR '' '', CHR 0x09, CHR 0x0A, CHR 0x0B, CHR 0x0C, CHR 0x0D})"

definition strip :: "string \<Rightarrow> string" where
  "strip s = rev (dropWhile is_space (rev (dropWhile is_space s)))"

definition digit_val :: "char \<Rightarrow> nat option" where
  "digit_val c =
     (let n = (of_char c :: nat) in if 48 \<le> n \<and> n \<le> 57 then Some (n - 48) else None)"

fun digits_val :: "nat \<Rightarrow> string \<Rightarrow> nat option" where
  "digits_val acc [] = Some acc"
| "digits_val acc (c # cs) =
     (case digit_val c of None \<Rightarrow> None | Some d \<Rightarrow> digits_val (10 * acc + d) cs)"

definition unsigned_val :: "string \<Rightarrow> nat option" where
  "unsigned_val s = (if s = [] then None else digits_val 0 s)"

definition int_of_str :: "string \<Rightarrow> int option" where
  "int_of_str s =
     (case strip s of
        [] \<Rightarrow> None
      | c # cs \<Rightarrow>
          if c = CHR ''-'' then map_option (\<lambda>n. - int n) (unsigned_val cs)
          else if c = CHR ''+'' then map_option int (unsigned_val cs)
          else map_option int (unsigned_val (c # cs)))"

text \<open>The XPath string value of an element: its text and that of its descendants.\<close>

fun string_value :: "element \<Rightarrow> string" where
  "string_value (Element t as tx cs) =
     (case tx of None \<Rightarrow> [] | Some v \<Rightarrow> v) @ concat (map string_value cs)"

definition example_parse_iso8601 :: "string option \<Rightarrow> error + datetime" where
  "example_parse_iso8601 v =
     (case v of
        None \<Rightarrow> Inl (ExternalError ''parse_iso8601'')
      | Some t \<Rightarrow>
          (case int_of_str t of
             None \<Rightarrow> Inl (ExternalError ''parse_iso8601'')
           | Some n \<Rightarrow> Inr n))"

definition example_penv :: penv where
  "example_penv =
     \<lparr>parse_iso8601 = example_parse_iso8601,
      loads_base64 = (\<lambda>v. Inr (PyDict [])),
      load_parser_data_base64 = (\<lambda>v. Inr (PyDict [])),
      to_text = (\<lambda>e. case etext e of None \<Rightarrow> [] | Some t \<Rightarrow> t),
      parsers = [''html'', ''zeml''],
      privileges = (\<lambda>name. None),
      xpath_string = string_value,
      int_dict_order = py2_dict_order int_hash,
      int_text = int_of_str,
      strip_text = strip\<rparr>"

definition example_wenv :: wenv where
  "example_wenv =
     \<lparr>build_tag_uri = (\<lambda>t. ''tag:example.org,'' @ str t @ '':tpxa_export/full''),
      escape = (\<lambda>v. v),
      version = ''0.1'',
      strftime = str,
      dumps_base64 = (\<lambda>d. ''payload''),
      base64 = (\<lambda>v. v),
      str_dict_order = py2_dict_order string_hash,
      user_dict_order = py2_dict_order int_hash,
      str_accepts = list_all (\<lambda>c. (of_char c :: nat) < 128)\<rparr>"

subsection \<open>Example documents\<close>

text \<open>
  A feed with the given entries and a dependencies block that defines the user
  \<open>alice\<close> under the id \<open>1\<close>; an entry by that user with the given further
  children; an entry without a payload; a comment with the given id, author element
  and further children.
\<close>

definition example_feed :: "element list \<Rightarrow> element" where
  "example_feed entries =
     Element (atom ''feed'') [] None
       ([Element (atom ''title'') [] (Some ''Blog'') []]
        @ entries
        @ [Element (textpress ''dependencies'') [] None
             [Element (textpress ''user'') [(textpress ''dependency'', ''1'')] None
                [Element (textpress ''username'') [] (Some ''alice'') []]]])"

definition example_entry :: "element list \<Rightarrow> element" where
  "example_entry extra =
     Element (atom ''entry'') [] None
       ([Element (atom ''updated'') [] (Some ''100'') [],
         Element (atom ''author'') [(textpress ''dependency'', ''1'')] None [],
         Element (textpress ''data'') [] (Some ''payload'') []]
        @ extra)"

definition entry_without_data :: element where
  "entry_without_data =
     Element (atom ''entry'') [] None
       [Element (atom ''updated'') [] (Some ''100'') [],
        Element (atom ''author'') [(textpress ''dependency'', ''1'')] None []]"

definition inline_author :: element where
  "inline_author =
     Element (textpress ''author'') [] None
       [Element (textpress ''name'') [] (Some ''bob'') []]"

definition example_comment :: "string \<Rightarrow> element \<Rightarrow> element list \<Rightarrow> element" where
  "example_comment cid author extra =
     Element (textpress ''comment'') [] None
       ([Element (textpress ''id'') [] (Some cid) [],
         author,
         Element (textpress ''published'') [] (Some ''100'') [],
         Element (textpress ''is_pingback'') [] (Some ''no'') [],
         Element (textpress ''status'') [] (Some ''0'') [],
         Element (textpress ''data'') [] (Some ''payload'') []]
        @ extra)"

text \<open>A comment of TextPress without a parent, and a post object around an entry.\<close>

definition top_level_comment :: tp_comment where
  "top_level_comment =
     \<lparr>c_comment_id = 1, c_author = Some ''bob'', c_email = None, c_www = None,
      c_pub_date = 100, c_blocked = False, c_is_pingback = False, c_blocked_msg = None,
      c_parent_id = None, c_status = 0, c_submitter_ip = None,
      c_raw_body = PyStr ''hello'', c_parser_data = PyNone\<rparr>"

definition post_of :: "element \<Rightarrow> post" where
  "post_of entry =
     \<lparr>po_slug = None, po_title = [], po_link = None, po_pub_date = 100, po_author = 0,
      po_intro = None, po_body = None, po_tags = [], po_categories = [],
      po_parser = ''html'', po_updated = 100, po_uid = None, po_element = entry,
      po_content_type = Some ''entry'', po_comments = []\<rparr>"

subsection \<open>Example blogs\<close>

definition example_user :: "int \<Rightarrow> string \<Rightarrow> bool \<Rightarrow> tp_user" where
  "example_user uid name manager =
     \<lparr>u_user_id = uid, u_username = Some name, u_role = 4, u_pw_hash = ''x'',
      u_display_name' = None, u_first_name = None, u_last_name = None,
      u_description = None, u_display_name = Some name, u_email = None,
      u_is_manager = manager\<rparr>"

definition alice :: tp_user where
  "alice = example_user 1 ''alice'' True"

definition bob :: tp_user where
  "bob = example_user 2 ''bob'' False"

definition carol :: tp_user where
  "carol = example_user 3 ''carol'' False"

definition news :: tp_tag where
  "news = \<lparr>t_description = Some ''News of the day'', t_slug = ''news'', t_name = ''News''\<rparr>"

definition example_post :: "int \<Rightarrow> datetime \<Rightarrow> tp_user \<Rightarrow> tp_comment list \<Rightarrow> tp_tag list \<Rightarrow> tp_post" where
  "example_post pid updated author comments tgs =
     \<lparr>p_title = Some ''A post'', p_uid = Some (str pid), p_last_update = updated,
      p_pub_date = updated, p_url = ''http://example.org/post'', p_author = author,
      p_slug = Some ''a-post'', p_post_id = pid, p_comments_enabled = True,
      p_pings_enabled = True, p_status = 1, p_body = Some ''body'', p_intro = None,
      p_extra = PyNone, p_raw_body = PyStr ''body'', p_raw_intro = PyNone,
      p_parser_data = PyNone, p_comments = comments, p_tags = tgs\<rparr>"

definition example_page :: tp_page where
  "example_page =
     \<lparr>g_title = Some ''About'', g_page_id = 1, g_key = Some ''about'',
      g_url = ''http://example.org/about'', g_body = Some ''about'', g_extra = PyNone,
      g_raw_body = PyStr ''about'', g_now = 1000\<rparr>"

text \<open>An application with the given plugins, posts, users and pages, at the instant 1000.\<close>

definition example_app ::
  "string list \<Rightarrow> tp_post list \<Rightarrow> tp_user list \<Rightarrow> tp_page list \<Rightarrow> app" where
  "example_app plugs ps us gs =
     \<lparr>cfg = [(''blog_title'', ''Blog''), (''blog_tagline'', ''A blog''),
             (''blog_url'', ''http://example.org/'')],
      plugins = plugs, post_objects = ps, user_objects = us, page_objects = Some gs,
      utcnow = 1000\<rparr>"



section \<open>Properties\<close>

subsection \<open>Results and loops\<close>

lemma bind_eq_Inr: "bind m f = Inr y \<longleftrightarrow> (\<exists>x. m = Inr x \<and> f x = Inr y)"
  by (cases m) auto

lemma for_each_member_fails:
  "x \<in> set xs \<Longrightarrow> (\<And>s. \<exists>e. f x s = Inl e) \<Longrightarrow> \<exists>e. for_each f xs s = Inl e"
proof (induction xs arbitrary: s)
  case Nil
  then show ?case by simp
next
  case (Cons y ys)
  show ?case
  proof (cases "f y s")
    case (Inl e)
    then show ?thesis by simp
  next
    case (Inr s')
    show ?thesis
    proof (cases "x = y")
      case True
      with Cons.prems(2) [of s] Inr show ?thesis by simp
    next
      case False
      with Cons.prems(1) have "x \<in> set ys" by simp
      from Cons.IH [OF this Cons.prems(2)] Inr show ?thesis by simp
    qed
  qed
qed

lemma for_each_append:
  "for_each f xs s = Inr s' \<Longrightarrow> for_each f (xs @ ys) s = for_each f ys s'"
proof (induction xs arbitrary: s)
  case Nil
  then show ?case by simp
next
  case (Cons x xs)
  then show ?case by (cases "f x s") simp_all
qed

subsection \<open>Selecting the format\<close>

lemma qname_inject [simp]: "qname ns a = qname ns b \<longleftrightarrow> a = b"
  by (simp add: qname_def)

lemma atom_inject [simp]: "atom a = atom b \<longleftrightarrow> a = b"
  by (simp add: atom_def)

lemma textpress_inject [simp]: "textpress a = textpress b \<longleftrightarrow> a = b"
  by (simp add: textpress_def)

lemma atom_neq_textpress [simp]: "atom a \<noteq> textpress b" "textpress b \<noteq> atom a"
  by (simp_all add: atom_def textpress_def qname_def ATOM_NS_def TEXTPRESS_NS_def)

lemma atom_feed_neq_rss: "atom ''feed'' \<noteq> ''rss''"
  by (simp add: atom_def qname_def)

text \<open>
  C9: \<^verbatim>\<open>parse_feed\<close> looks at the tag of the root only.  A root \<^verbatim>\<open>rss\<close> raises the
  \<^verbatim>\<open>FeedImportError\<close> of the unsupported variant, a root that is neither \<^verbatim>\<open>rss\<close> nor the
  Atom \<^verbatim>\<open>feed\<close> raises the \<^verbatim>\<open>FeedImportError\<close> of the unknown feed, and only the Atom
  \<^verbatim>\<open>feed\<close> is parsed.  For a root that is not the Atom \<^verbatim>\<open>feed\<close>, the outcome is the
  same for every document with that root tag.
\<close>

theorem parse_feed_root_tag:
  "(tag tree = ''rss'' \<longrightarrow>
      parse_feed env tree =
        Inl (FeedImportError ''Importing of RSS feeds is currently not possible.''))
   \<and> (tag tree \<noteq> ''rss'' \<and> tag tree \<noteq> atom ''feed'' \<longrightarrow>
      parse_feed env tree = Inl (FeedImportError ''Unknown feed uploaded.''))
   \<and> (tag tree = atom ''feed'' \<longrightarrow>
      parse_feed env tree = parse env tree (init_parser tree))
   \<and> (tag tree \<noteq> atom ''feed'' \<and> tag tree' = tag tree \<longrightarrow>
      parse_feed env' tree' = parse_feed env tree)"
  by (simp add: parse_feed_def atom_feed_neq_rss)

theorem parse_feed_root_tag_witness:
  "parse_feed example_penv (Element ''rss'' [] None []) =
     Inl (FeedImportError ''Importing of RSS feeds is currently not possible.'')
   \<and> parse_feed example_penv (Element ''html'' [] None []) =
     Inl (FeedImportError ''Unknown feed uploaded.'')
   \<and> parse_feed example_penv (example_feed []) =
     parse example_penv (example_feed []) (init_parser (example_feed []))
   \<and> parse_feed example_penv (Element ''rss'' [(''version'', ''2.0'')] None [example_entry []]) =
     parse_feed example_penv (Element ''rss'' [] None [])"
proof -
  have a: "tag (Element ''rss'' [] None []) = ''rss''" by simp
  have b: "tag (Element ''html'' [] None []) \<noteq> ''rss''
           \<and> tag (Element ''html'' [] None []) \<noteq> atom ''feed''"
    by (simp add: atom_def qname_def)
  have c: "tag (example_feed []) = atom ''feed''" by (simp add: example_feed_def)
  have d: "tag (Element ''rss'' [] None []) \<noteq> atom ''feed''
           \<and> tag (Element ''rss'' [(''version'', ''2.0'')] None [example_entry []])
              = tag (Element ''rss'' [] None [])"
    by (simp add: atom_def qname_def)
  from a b c d
    parse_feed_root_tag [of "Element ''rss'' [] None []" example_penv
       "Element ''rss'' [(''version'', ''2.0'')] None [example_entry []]" example_penv]
    parse_feed_root_tag [of "Element ''html'' [] None []" example_penv]
    parse_feed_root_tag [of "example_feed []" example_penv]
  show ?thesis by blast
qed

subsection \<open>The payload of an entry\<close>

lemma first_data_empty:
  "findall entry (textpress ''data'') = [] \<Longrightarrow>
     first_data entry = Inl (IndexError ''entry.findall(textpress.data)[0]'')"
  by (simp add: first_data_def)

lemma parse_post_needs_data:
  assumes "findall entry (textpress ''data'') = []"
  shows "\<exists>e. parse_post env entry s = Inl e"
proof (cases "parse_post env entry s")
  case (Inl e)
  then show ?thesis by blast
next
  case (Inr r)
  then have "\<exists>d. first_data entry = Inr d"
    unfolding parse_post_def make_post_def
    by (auto simp: bind_eq_Inr Let_def split: prod.splits)
  with first_data_empty [OF assms] show ?thesis by simp
qed

lemma append_post_needs_data:
  assumes "findall entry (textpress ''data'') = []"
  shows "\<exists>e. append_post env entry s = Inl e"
  using parse_post_needs_data [OF assms, of env s]
  by (auto simp: append_post_def)

lemma parse_needs_data:
  assumes "entry \<in> set (findall tree (atom ''entry''))"
      and "findall entry (textpress ''data'') = []"
  shows "\<exists>e. parse env tree s = Inl e"
proof -
  from for_each_member_fails [OF assms(1), of "append_post env" s]
       append_post_needs_data [OF assms(2)]
  obtain e where "for_each (append_post env) (findall tree (atom ''entry'')) s = Inl e"
    by blast
  then show ?thesis by (simp add: parse_def)
qed

text \<open>
  C10: \<^verbatim>\<open>parse_post\<close> fails on every entry without a \<^verbatim>\<open>tp:data\<close> child, so a document
  that is decoded has such a child in every entry; and when the child is there, the
  index \<^verbatim>\<open>[0]\<close> does not raise and yields the text of the first one.
\<close>

theorem entry_without_data_fails:
  "(findall entry (textpress ''data'') = [] \<longrightarrow> (\<exists>e. parse_post env entry s = Inl e))
   \<and> (parse_feed env tree = Inr r \<and> entry \<in> set (findall tree (atom ''entry'')) \<longrightarrow>
        findall entry (textpress ''data'') \<noteq> [])
   \<and> (findall entry (textpress ''data'') \<noteq> [] \<longrightarrow>
        first_data entry = Inr (etext (hd (findall entry (textpress ''data'')))))"
proof (intro conjI impI)
  assume "findall entry (textpress ''data'') = []"
  then show "\<exists>e. parse_post env entry s = Inl e" by (rule parse_post_needs_data)
next
  assume "parse_feed env tree = Inr r \<and> entry \<in> set (findall tree (atom ''entry''))"
  then have ok: "parse_feed env tree = Inr r"
     and mem: "entry \<in> set (findall tree (atom ''entry''))" by simp_all
  show "findall entry (textpress ''data'') \<noteq> []"
  proof
    assume "findall entry (textpress ''data'') = []"
    from parse_needs_data [OF mem this, of env "init_parser tree"] ok
    show False by (auto simp: parse_feed_def split: if_splits)
  qed
next
  assume "findall entry (textpress ''data'') \<noteq> []"
  then show "first_data entry = Inr (etext (hd (findall entry (textpress ''data''))))"
    by (cases "findall entry (textpress ''data'')") (simp_all add: first_data_def)
qed

theorem entry_without_data_fails_witness:
  "(\<exists>e. parse_post example_penv entry_without_data (init_parser (example_feed [])) = Inl e)
   \<and> (\<exists>r. parse_feed example_penv (example_feed [example_entry []]) = Inr r)
   \<and> findall (example_entry []) (textpress ''data'') \<noteq> []
   \<and> first_data (example_entry []) = Inr (Some ''payload'')"
proof -
  have a: "findall entry_without_data (textpress ''data'') = []" by code_simp
  have "\<not> isl (parse_feed example_penv (example_feed [example_entry []]))" by code_simp
  then obtain r where b: "parse_feed example_penv (example_feed [example_entry []]) = Inr r"
    by (cases "parse_feed example_penv (example_feed [example_entry []])") auto
  have c: "example_entry [] \<in> set (findall (example_feed [example_entry []]) (atom ''entry''))"
    by code_simp
  have d: "etext (hd (findall (example_entry []) (textpress ''data''))) = Some ''payload''"
    by code_simp
  from a b c d
    entry_without_data_fails [of entry_without_data example_penv "init_parser (example_feed [])"]
    entry_without_data_fails [of "example_entry []" example_penv _
       "example_feed [example_entry []]" r]
  show ?thesis by auto
qed


subsection \<open>Comments and their parents\<close>

lemma store_comment_Inr:
  assumes "store_comment env c r (comments, unresolved) = Inr (comments', unresolved')"
  shows "\<exists>cid. py_int env (findtext c (textpress ''id'')) = Inr cid
           \<and> comments' = AList.update cid r comments
           \<and> (case findtext c (textpress ''parent'') of
                None \<Rightarrow> unresolved' = unresolved
              | Some p \<Rightarrow> \<exists>pid. py_int env (Some p) = Inr pid \<and> unresolved' = unresolved @ [(r, pid)])"
proof -
  from assms obtain cid where cid: "py_int env (findtext c (textpress ''id'')) = Inr cid"
    and rest: "(if findtext c (textpress ''parent'') \<noteq> None
             then bind (py_int env (findtext c (textpress ''parent''))) (\<lambda>parent_id.
                    Inr (AList.update cid r comments, unresolved @ [(r, parent_id)]))
             else Inr (AList.update cid r comments, unresolved)) = Inr (comments', unresolved')"
    unfolding store_comment_def
    by (auto simp: bind_eq_Inr Let_def simp del: py_int.simps)
  show ?thesis
  proof (cases "findtext c (textpress ''parent'')")
    case None
    with rest cid show ?thesis by (simp del: py_int.simps)
  next
    case (Some p)
    with rest obtain pid where "py_int env (Some p) = Inr pid"
      "comments' = AList.update cid r comments" "unresolved' = unresolved @ [(r, pid)]"
      by (auto simp: bind_eq_Inr simp del: py_int.simps)
    with cid Some show ?thesis by (simp del: py_int.simps)
  qed
qed

lemma parse_comment_Inr:
  assumes "parse_comment env c (comments, unresolved, cp, s) = Inr (comments', unresolved', cp', s')"
  shows "\<exists>r. store_comment env c r (comments, unresolved) = Inr (comments', unresolved')"
  using assms unfolding parse_comment_def
  by (auto simp: bind_eq_Inr split: prod.splits)

lemma keys_update: "fst ` set (AList.update k v al) = insert k (fst ` set al)"
  by (induction al) auto

lemma parse_comment_step:
  assumes "parse_comment env c (comments, unresolved, cp, s) = Inr (comments1, unresolved1, cp1, s1)"
  shows "\<exists>r cid. py_int env (findtext c (textpress ''id'')) = Inr cid
           \<and> comments1 = AList.update cid r comments
           \<and> (case findtext c (textpress ''parent'') of
                None \<Rightarrow> unresolved1 = unresolved
              | Some p \<Rightarrow> \<exists>pid. py_int env (Some p) = Inr pid \<and> unresolved1 = unresolved @ [(r, pid)])"
proof -
  from parse_comment_Inr [OF assms] obtain r where
    "store_comment env c r (comments, unresolved) = Inr (comments1, unresolved1)" by blast
  from store_comment_Inr [OF this] show ?thesis by blast
qed

lemma for_each_Cons_Inr:
  assumes "for_each f (x # xs) s = Inr s'"
  obtains s1 where "f x s = Inr s1" and "for_each f xs s1 = Inr s'"
  using assms by (cases "f x s") simp_all

lemma first_loop_comments:
  assumes "for_each (parse_comment env) cs (comments, unresolved, cp, s)
             = Inr (comments', unresolved', cp', s')"
      and "n \<in> fst ` set comments'"
  shows "n \<in> fst ` set comments
         \<or> (\<exists>c \<in> set cs. py_int env (findtext c (textpress ''id'')) = Inr n)"
  using assms
proof (induction cs arbitrary: comments unresolved cp s)
  case Nil
  then show ?case by simp
next
  case (Cons c cs)
  from Cons.prems(1) obtain st where
    step: "parse_comment env c (comments, unresolved, cp, s) = Inr st"
    and rest: "for_each (parse_comment env) cs st = Inr (comments', unresolved', cp', s')"
    by (rule for_each_Cons_Inr)
  obtain comments1 unresolved1 cp1 s1 where st: "st = (comments1, unresolved1, cp1, s1)"
    by (cases st) auto
  from parse_comment_step [OF step [unfolded st]] obtain r cid where
    cid: "py_int env (findtext c (textpress ''id'')) = Inr cid"
    and c1: "comments1 = AList.update cid r comments"
    by blast
  from Cons.IH [OF rest [unfolded st] Cons.prems(2)]
  have "n \<in> fst ` set comments1
         \<or> (\<exists>c \<in> set cs. py_int env (findtext c (textpress ''id'')) = Inr n)" .
  moreover have "fst ` set comments1 = insert cid (fst ` set comments)"
    by (simp only: c1 keys_update)
  ultimately have "n = cid \<or> n \<in> fst ` set comments
         \<or> (\<exists>c \<in> set cs. py_int env (findtext c (textpress ''id'')) = Inr n)" by blast
  with cid show ?case by (metis list.set_intros(1) list.set_intros(2))
qed

lemma first_loop_unresolved:
  assumes "for_each (parse_comment env) cs (comments, unresolved, cp, s)
             = Inr (comments', unresolved', cp', s')"
  shows "snd ` set unresolved \<subseteq> snd ` set unresolved'
         \<and> (\<forall>c \<in> set cs. \<forall>p n. findtext c (textpress ''parent'') = Some p \<longrightarrow>
                py_int env (Some p) = Inr n \<longrightarrow> n \<in> snd ` set unresolved')"
  using assms
proof (induction cs arbitrary: comments unresolved cp s)
  case Nil
  then show ?case by simp
next
  case (Cons c cs)
  from Cons.prems(1) obtain st where
    step: "parse_comment env c (comments, unresolved, cp, s) = Inr st"
    and rest: "for_each (parse_comment env) cs st = Inr (comments', unresolved', cp', s')"
    by (rule for_each_Cons_Inr)
  obtain comments1 unresolved1 cp1 s1 where st: "st = (comments1, unresolved1, cp1, s1)"
    by (cases st) auto
  from parse_comment_step [OF step [unfolded st]] obtain r where
    u1: "(case findtext c (textpress ''parent'') of
                None \<Rightarrow> unresolved1 = unresolved
              | Some p \<Rightarrow> \<exists>pid. py_int env (Some p) = Inr pid \<and> unresolved1 = unresolved @ [(r, pid)])"
    by blast
  from Cons.IH [OF rest [unfolded st]]
  have sub: "snd ` set unresolved1 \<subseteq> snd ` set unresolved'"
    and rest_ok: "\<forall>c \<in> set cs. \<forall>p n. findtext c (textpress ''parent'') = Some p \<longrightarrow>
                py_int env (Some p) = Inr n \<longrightarrow> n \<in> snd ` set unresolved'"
    by blast+
  have a: "snd ` set unresolved \<subseteq> snd ` set unresolved1"
  proof (cases "findtext c (textpress ''parent'')")
    case None
    with u1 show ?thesis by simp
  next
    case (Some p)
    with u1 obtain pid where "unresolved1 = unresolved @ [(r, pid)]" by auto
    then show ?thesis by auto
  qed
  have b: "n \<in> snd ` set unresolved1"
    if "findtext c (textpress ''parent'') = Some p" and "py_int env (Some p) = Inr n" for p n
  proof -
    from u1 that(1) obtain pid where
      "py_int env (Some p) = Inr pid" and "unresolved1 = unresolved @ [(r, pid)]" by auto
    with that(2) show ?thesis by force
  qed
  from a sub have "snd ` set unresolved \<subseteq> snd ` set unresolved'" by blast
  moreover have "\<forall>c' \<in> set (c # cs). \<forall>p n. findtext c' (textpress ''parent'') = Some p \<longrightarrow>
                py_int env (Some p) = Inr n \<longrightarrow> n \<in> snd ` set unresolved'"
  proof (intro ballI allI impI)
    fix c' p n
    assume "c' \<in> set (c # cs)" and p: "findtext c' (textpress ''parent'') = Some p"
       and n: "py_int env (Some p) = Inr n"
    then consider "c' = c" | "c' \<in> set cs" by auto
    then show "n \<in> snd ` set unresolved'"
    proof cases
      case 1
      with b [of p n] p n sub show ?thesis by blast
    next
      case 2
      with rest_ok p n show ?thesis by blast
    qed
  qed
  ultimately show ?case by blast
qed

lemma link_parents_fail:
  "(r, n) \<in> set unresolved \<Longrightarrow> map_of comments n = None \<Longrightarrow>
     for_each (link_parent comments) unresolved s = Inl (KeyError ''comments[parent_id]'')"
proof (induction unresolved arbitrary: s)
  case Nil
  then show ?case by simp
next
  case (Cons u us)
  obtain c pid where u: "u = (c, pid)" by (cases u) auto
  show ?case
  proof (cases "map_of comments pid")
    case None
    then show ?thesis by (simp add: u link_parent_def)
  next
    case (Some p)
    with Cons.prems have "(r, n) \<in> set us" by (auto simp: u)
    from Cons.IH [OF this Cons.prems(2)] Some show ?thesis
      by (simp add: u link_parent_def)
  qed
qed

text \<open>The hypotheses: a comment of the entry declares the parent n, no comment of the entry has id n\<close>

lemma x_parse_comments_dangling:
  assumes c: "c \<in> set (findall (po_element po) (textpress ''comment''))"
      and p: "findtext c (textpress ''parent'') = Some p" "py_int env (Some p) = Inr n"
      and no: "\<forall>c' \<in> set (findall (po_element po) (textpress ''comment'')).
                 py_int env (findtext c' (textpress ''id'')) \<noteq> Inr n"
  shows "(\<exists>e. x_parse_comments env po s = Inl e)
         \<and> (for_each (parse_comment env) (findall (po_element po) (textpress ''comment''))
               ([], [], None, s) = Inr l \<longrightarrow>
             x_parse_comments env po s = Inl (KeyError ''comments[parent_id]''))"
proof -
  let ?cs = "findall (po_element po) (textpress ''comment'')"
  have main: "x_parse_comments env po s = Inl (KeyError ''comments[parent_id]'')"
    if ok: "for_each (parse_comment env) ?cs ([], [], None, s) = Inr l" for l
  proof -
    obtain comments unresolved cp s1 where l: "l = (comments, unresolved, cp, s1)"
      by (cases l) auto
    from first_loop_unresolved [OF ok [unfolded l]] c p
    have "n \<in> snd ` set unresolved" by blast
    then obtain r where r: "(r, n) \<in> set unresolved" by force
    have "n \<notin> fst ` set comments"
    proof
      assume "n \<in> fst ` set comments"
      from first_loop_comments [OF ok [unfolded l] this] no show False by auto
    qed
    then have "map_of comments n = None" by (simp add: map_of_eq_None_iff)
    from link_parents_fail [OF r this]
    show ?thesis by (simp add: x_parse_comments_def ok l)
  qed
  show ?thesis
  proof (cases "for_each (parse_comment env) ?cs ([], [], None, s)")
    case (Inl e)
    then show ?thesis by (simp add: x_parse_comments_def)
  next
    case (Inr l')
    from main [OF this] Inr show ?thesis by simp
  qed
qed

lemma make_post_element:
  "make_post env entry s = Inr (po, s') \<Longrightarrow> po_element po = entry"
  unfolding make_post_def
  by (clarsimp simp: bind_eq_Inr Let_def split: prod.splits)

lemma parse_post_dangling:
  assumes c: "c \<in> set (findall entry (textpress ''comment''))"
      and p: "findtext c (textpress ''parent'') = Some p" "py_int env (Some p) = Inr n"
      and no: "\<forall>c' \<in> set (findall entry (textpress ''comment'')).
                 py_int env (findtext c' (textpress ''id'')) \<noteq> Inr n"
  shows "\<exists>e. parse_post env entry s = Inl e"
proof (cases "make_post env entry s")
  case (Inl e)
  then show ?thesis by (simp add: parse_post_def)
next
  case (Inr r)
  obtain po s1 where r: "r = (po, s1)" by (cases r) auto
  from make_post_element [OF Inr [unfolded r]] have el: "po_element po = entry" .
  from c p no el have "\<exists>e. x_parse_comments env po s1 = Inl e"
    using x_parse_comments_dangling [where c = c and po = po and p = p and n = n and env = env and s = s1]
    by blast
  then obtain e where "x_parse_comments env po s1 = Inl e" by blast
  then show ?thesis by (simp add: parse_post_def Inr r parse_comments_def)
qed


text \<open>
  C4, as amended: when a comment of an entry declares a parent numeric id that no
  comment of the same entry has (also when a comment of another entry has it),
  decoding the document returns no graph but ends with an exception; when the first
  loop of \<^verbatim>\<open>parse_comments\<close> gets through, the exception is the \<^verbatim>\<open>KeyError\<close> of the
  dictionary lookup \<^verbatim>\<open>comments[parent_id]\<close>, not a \<^verbatim>\<open>FeedImportError\<close>; and it is
  the exception \<^verbatim>\<open>parse_feed\<close> ends with when the document is an Atom feed, the
  entries before this one are decoded, and this entry is decoded up to the end of the
  first loop over its comments.  The numbers are what \<^verbatim>\<open>int\<close> reads in the texts.
\<close>

theorem dangling_parent_fails:
  assumes "c \<in> set (findall entry (textpress ''comment''))"
      and "findtext c (textpress ''parent'') = Some p"
      and "py_int env (Some p) = Inr n"
      and "\<forall>c' \<in> set (findall entry (textpress ''comment'')).
             py_int env (findtext c' (textpress ''id'')) \<noteq> Inr n"
  shows "(entry \<in> set (findall tree (atom ''entry'')) \<longrightarrow> (\<exists>e. parse_feed env tree = Inl e))
         \<and> (po_element po = entry
              \<and> for_each (parse_comment env) (findall entry (textpress ''comment''))
                    ([], [], None, s) = Inr l \<longrightarrow>
            x_parse_comments env po s = Inl (KeyError ''comments[parent_id]''))
         \<and> (tag tree = atom ''feed''
              \<and> findall tree (atom ''entry'') = before @ entry # after
              \<and> for_each (append_post env) before (init_parser tree) = Inr s0
              \<and> bind (make_post env entry s0)
                    (\<lambda>(po, s1). for_each (parse_comment env)
                                  (findall entry (textpress ''comment'')) ([], [], None, s1))
                  = Inr l' \<longrightarrow>
            parse_feed env tree = Inl (KeyError ''comments[parent_id]''))"
proof (intro conjI impI)
  assume mem: "entry \<in> set (findall tree (atom ''entry''))"
  have "\<exists>e. append_post env entry s' = Inl e" for s'
    using parse_post_dangling [OF assms, of s'] by (auto simp: append_post_def)
  from for_each_member_fails [OF mem, of "append_post env" "init_parser tree"] this
  obtain e where "for_each (append_post env) (findall tree (atom ''entry'')) (init_parser tree) = Inl e"
    by blast
  then have "parse env tree (init_parser tree) = Inl e" by (simp add: parse_def)
  then show "\<exists>e. parse_feed env tree = Inl e" by (simp add: parse_feed_def)
next
  assume "po_element po = entry
              \<and> for_each (parse_comment env) (findall entry (textpress ''comment''))
                    ([], [], None, s) = Inr l"
  then have el: "po_element po = entry"
    and ok: "for_each (parse_comment env) (findall (po_element po) (textpress ''comment''))
                    ([], [], None, s) = Inr l" by simp_all
  from x_parse_comments_dangling [where c = c and po = po and p = p and n = n and env = env
         and s = s and l = l] assms el ok
  show "x_parse_comments env po s = Inl (KeyError ''comments[parent_id]'')" by blast
next
  assume h: "tag tree = atom ''feed''
              \<and> findall tree (atom ''entry'') = before @ entry # after
              \<and> for_each (append_post env) before (init_parser tree) = Inr s0
              \<and> bind (make_post env entry s0)
                    (\<lambda>(po, s1). for_each (parse_comment env)
                                  (findall entry (textpress ''comment'')) ([], [], None, s1))
                  = Inr l'"
  then have root: "tag tree = atom ''feed''"
    and entries: "findall tree (atom ''entry'') = before @ entry # after"
    and before: "for_each (append_post env) before (init_parser tree) = Inr s0" by simp_all
  from h obtain r where mp: "make_post env entry s0 = Inr r"
    and fl: "(case r of (po, s1) \<Rightarrow> for_each (parse_comment env)
                (findall entry (textpress ''comment'')) ([], [], None, s1)) = Inr l'"
    by (auto simp: bind_eq_Inr)
  obtain po' s1 where r: "r = (po', s1)" by (cases r) auto
  from make_post_element [OF mp [unfolded r]] have el: "po_element po' = entry" .
  from fl r el have ok: "for_each (parse_comment env)
      (findall (po_element po') (textpress ''comment'')) ([], [], None, s1) = Inr l'" by simp
  from x_parse_comments_dangling [where c = c and po = po' and p = p and n = n and env = env
         and s = s1 and l = l'] assms el ok
  have "x_parse_comments env po' s1 = Inl (KeyError ''comments[parent_id]'')" by blast
  then have "append_post env entry s0 = Inl (KeyError ''comments[parent_id]'')"
    by (simp add: append_post_def parse_post_def parse_comments_def mp r)
  then have "for_each (append_post env) (before @ entry # after) (init_parser tree)
               = Inl (KeyError ''comments[parent_id]'')"
    by (simp add: for_each_append [OF before])
  then have "parse env tree (init_parser tree) = Inl (KeyError ''comments[parent_id]'')"
    by (simp add: parse_def entries)
  with root show "parse_feed env tree = Inl (KeyError ''comments[parent_id]'')"
    by (simp add: parse_feed_def atom_feed_neq_rss)
qed

lemma raised_Some: "raised r = Some e \<Longrightarrow> r = Inl e"
  by (cases r) simp_all

lemma dangling_raised:
  "raised (parse_feed example_penv
     (example_feed
        [example_entry
           [example_comment ''1'' inline_author
              [Element (textpress ''parent'') [] (Some ''5'') []]]]))
   = Some (KeyError ''comments[parent_id]'')"
  by code_simp

text \<open>
  C4, as stated, fails: the comment 1 of the only entry declares the parent 5, and
  decoding ends with a \<^verbatim>\<open>KeyError\<close>, which is not a \<^verbatim>\<open>FeedImportError\<close>.
\<close>

theorem dangling_parent_is_KeyError:
  "parse_feed example_penv
     (example_feed
        [example_entry
           [example_comment ''1'' inline_author
              [Element (textpress ''parent'') [] (Some ''5'') []]]])
   = Inl (KeyError ''comments[parent_id]'')"
  by (rule raised_Some) (rule dangling_raised)

text \<open>The amended C4 at that document.\<close>

theorem dangling_parent_fails_witness:
  "(\<exists>e. parse_feed example_penv
     (example_feed
        [example_entry
           [example_comment ''1'' inline_author
              [Element (textpress ''parent'') [] (Some ''5'') []]]]) = Inl e)
   \<and> x_parse_comments example_penv
        (post_of (example_entry
           [example_comment ''1'' inline_author
              [Element (textpress ''parent'') [] (Some ''5'') []]]))
        (init_parser (example_feed []))
      = Inl (KeyError ''comments[parent_id]'')
   \<and> parse_feed example_penv
        (example_feed
           [example_entry
              [example_comment ''1'' inline_author
                 [Element (textpress ''parent'') [] (Some ''5'') []]]])
      = Inl (KeyError ''comments[parent_id]'')"
proof -
  let ?c = "example_comment ''1'' inline_author [Element (textpress ''parent'') [] (Some ''5'') []]"
  let ?entry = "example_entry [?c]"
  let ?tree = "example_feed [?entry]"
  let ?first = "\<lambda>(po :: post, s1). for_each (parse_comment example_penv)
                  (findall ?entry (textpress ''comment'')) ([], [], None, s1)"
  have a: "?c \<in> set (findall ?entry (textpress ''comment''))" by code_simp
  have b: "findtext ?c (textpress ''parent'') = Some ''5''" by code_simp
  have c: "py_int example_penv (Some ''5'') = Inr 5" by code_simp
  have d: "\<forall>c' \<in> set (findall ?entry (textpress ''comment'')).
             py_int example_penv (findtext c' (textpress ''id'')) \<noteq> Inr 5" by code_simp
  have e: "?entry \<in> set (findall ?tree (atom ''entry''))" by code_simp
  have f: "po_element (post_of ?entry) = ?entry" by (simp add: post_of_def)
  have "raised (for_each (parse_comment example_penv) (findall ?entry (textpress ''comment''))
          ([], [], None, init_parser (example_feed []))) = None" by code_simp
  then obtain l where g: "for_each (parse_comment example_penv)
          (findall ?entry (textpress ''comment''))
          ([], [], None, init_parser (example_feed [])) = Inr l"
    by (cases "for_each (parse_comment example_penv) (findall ?entry (textpress ''comment''))
          ([], [], None, init_parser (example_feed []))") simp_all
  have h: "tag ?tree = atom ''feed''" by (simp add: example_feed_def)
  have i: "findall ?tree (atom ''entry'') = [] @ ?entry # []" by code_simp
  have j: "for_each (append_post example_penv) [] (init_parser ?tree) = Inr (init_parser ?tree)"
    by simp
  have "raised (bind (make_post example_penv ?entry (init_parser ?tree)) ?first) = None"
    by code_simp
  then obtain l' where k: "bind (make_post example_penv ?entry (init_parser ?tree)) ?first = Inr l'"
    by (cases "bind (make_post example_penv ?entry (init_parser ?tree)) ?first") simp_all
  from dangling_parent_fails [OF a b c d, where tree = ?tree and po = "post_of ?entry"
         and s = "init_parser (example_feed [])" and l = l and before = "[]" and after = "[]"
         and ?s0.0 = "init_parser ?tree" and l' = l'] e f g h i j k
  show ?thesis by blast
qed

lemma empty_parent_raised:
  "raised (parse_feed example_penv
     (example_feed [example_entry [dump_comment example_wenv top_level_comment]]))
   = Some (ValueError ''int'')"
  by code_simp

lemma absent_parent_decoded:
  "map_sum (\<lambda>e. e) (\<lambda>(b, s). map cm_parent (comment_objs s))
       (parse_feed example_penv
          (example_feed [example_entry [example_comment ''1'' inline_author []]]))
     = Inr [None]"
  by code_simp

text \<open>
  C5: the claim is that a comment with an empty parent field, which is what the
  exporter writes for a comment without a parent, is decoded to a comment without a
  parent.  The code raises instead: \<^verbatim>\<open>if parent is not None or ''\<close> lets the empty
  text through to \<^verbatim>\<open>int(parent)\<close>.  Only a comment without a \<^verbatim>\<open>tp:parent\<close> element is
  decoded to a comment without a parent.
\<close>

theorem empty_parent_raises:
  "parse_feed example_penv
     (example_feed [example_entry [dump_comment example_wenv top_level_comment]])
   = Inl (ValueError ''int'')
   \<and> map_sum (\<lambda>e. e) (\<lambda>(b, s). map cm_parent (comment_objs s))
       (parse_feed example_penv
          (example_feed [example_entry [example_comment ''1'' inline_author []]]))
     = Inr [None]"
  using raised_Some [OF empty_parent_raised] absent_parent_decoded by simp

lemma comment_dependency_inline:
  "map_sum (\<lambda>e. e) (\<lambda>(b, s). (b_authors b, map cm_author (comment_objs s)))
     (parse_feed example_penv
        (example_feed
           [example_entry
              [example_comment ''1''
                 (Element (textpress ''author'') [(textpress ''dependency'', ''1'')] None
                    [Element (textpress ''name'') [] (Some ''alice'') []])
                 []]]))
   = Inr ([0], [AuthorName (Some ''alice'')])"
  by code_simp

lemma comment_plain_dependency_raised:
  "raised (parse_feed example_penv
        (example_feed
           [example_entry
              [example_comment ''1''
                 (Element (textpress ''author'') [(''dependency'', ''1'')] None []) []]]))
     = Some (IndexError ''_lookup_user(...)[0]'')"
  by code_simp

text \<open>
  C6: the claim is that a comment whose author element carries the dependency
  attribute of the extension namespace gets the author of the dependency table.
  \<^verbatim>\<open>parse_comments\<close> reads the attribute \<^verbatim>\<open>dependency\<close> without the namespace, so the
  reference is not seen and the author is the inline name, while the author of the
  entry, with the same attribute, is the object of the table.  With the plain
  attribute, \<^verbatim>\<open>_get_author\<close> is given the element instead of the id and finds no
  user.
\<close>

theorem comment_dependency_not_resolved:
  "map_sum (\<lambda>e. e) (\<lambda>(b, s). (b_authors b, map cm_author (comment_objs s)))
     (parse_feed example_penv
        (example_feed
           [example_entry
              [example_comment ''1''
                 (Element (textpress ''author'') [(textpress ''dependency'', ''1'')] None
                    [Element (textpress ''name'') [] (Some ''alice'') []])
                 []]]))
   = Inr ([0], [AuthorName (Some ''alice'')])
   \<and> parse_feed example_penv
        (example_feed
           [example_entry
              [example_comment ''1''
                 (Element (textpress ''author'') [(''dependency'', ''1'')] None []) []]])
     = Inl (IndexError ''_lookup_user(...)[0]'')"
  using comment_dependency_inline raised_Some [OF comment_plain_dependency_raised] by simp


subsection \<open>Categories and tags\<close>

lemma dump_tags_categories:
  "dump_tags w ts = Inr es \<Longrightarrow> filter (\<lambda>c. tag c = atom ''category'') es = es"
proof (induction ts arbitrary: es)
  case Nil
  then show ?case by simp
next
  case (Cons t ts)
  from Cons.prems obtain e es' where e: "dump_tag w t = Inr e"
    and es': "dump_tags w ts = Inr es'" and es: "es = e # es'"
    by (auto simp: bind_eq_Inr)
  from e have "tag e = atom ''category''" by (auto simp: dump_tag_def bind_eq_Inr)
  with Cons.IH [OF es'] es show ?case by simp
qed

lemma dump_comments_Inr:
  "dump_comments env cs = Inr es \<Longrightarrow> es = map (dump_comment env) cs"
  by (induction cs arbitrary: es) (auto simp: bind_eq_Inr)

lemma post_entry_categories:
  assumes "post_entry env w p = Inr entry"
  shows "dump_tags w (p_tags p) = Inr (findall entry (atom ''category''))"
proof -
  from assms obtain dep cats where cats: "dump_tags w (p_tags p) = Inr cats"
    and entry: "entry = Element (atom ''entry'') [(''xml:base'', p_url p)] None
              ([Element (atom ''title'') [(''type'', ''text'')] (p_title p) [],
                Element (atom ''id'') [] (p_uid p) [],
                Element (atom ''updated'') [] (Some (format_iso8601 env (p_last_update p))) [],
                Element (atom ''published'') [] (Some (format_iso8601 env (p_pub_date p))) [],
                Element (atom ''link'') [(''href'', p_url p)] None [],
                Element (atom ''author'') [(textpress ''dependency'', dep)] None
                  [Element (atom ''name'') [] (u_display_name (p_author p)) [],
                   Element (atom ''email'') [] (u_email (p_author p)) []],
                Element (textpress ''slug'') [] (p_slug p) [],
                Element (textpress ''id'') [] (Some (str (p_post_id p))) [],
                Element (textpress ''comments_enabled'') []
                  (Some (yes_no (p_comments_enabled p))) [],
                Element (textpress ''pings_enabled'') [] (Some (yes_no (p_pings_enabled p))) [],
                Element (textpress ''status'') [] (Some (str (p_status p))) [],
                Element (atom ''content'') [(''type'', ''html'')] (p_body p) []]
               @ (case p_intro p of
                    None \<Rightarrow> []
                  | Some intro \<Rightarrow> [Element (atom ''summary'') [(''type'', ''html'')] (Some intro) []])
               @ [Element (textpress ''content_type'') [] (Some ''entry'') [],
                  Element (textpress ''data'') []
                    (Some (dumps_base64 env
                             [(''extra'', p_extra p), (''raw_body'', p_raw_body p),
                              (''raw_intro'', p_raw_intro p),
                              (''parser_data'', p_parser_data p)])) []]
               @ map (dump_comment env) (p_comments p)
               @ cats)"
    unfolding post_entry_def by (auto simp: bind_eq_Inr dest: dump_comments_Inr)
  have "filter (\<lambda>c. tag c = atom ''category'') (map (dump_comment env) (p_comments p)) = []"
    by (simp add: filter_empty_conv dump_comment_def)
  with dump_tags_categories [OF cats] cats show ?thesis
    by (simp add: entry findall_def split: option.splits)
qed

lemma dump_tags_each:
  "dump_tags w ts = Inr es \<longleftrightarrow> list_all2 (\<lambda>t e. dump_tag w t = Inr e) ts es"
proof (induction ts arbitrary: es)
  case Nil
  show ?case by auto
next
  case (Cons t ts)
  show ?case by (auto simp: bind_eq_Inr Cons.IH list_all2_Cons1)
qed

lemma dump_tags_raises:
  assumes "\<And>t. t \<in> set ts \<Longrightarrow> dump_tag w t = Inl e" "ts \<noteq> []"
  shows "dump_tags w ts = Inl e"
  using assms by (cases ts) simp_all

lemma post_entry_raises:
  "dump_tags w (p_tags p) = Inl e \<Longrightarrow> \<exists>e'. post_entry env w p = Inl e'"
  unfolding post_entry_def
  by (cases "user_dependency w (u_user_id (p_author p))";
      cases "dump_comments env (p_comments p)") simp_all

lemma tagged_post_raised:
  "generate example_wenv
     (example_app [''pages''] [example_post 1 500 alice [] [news]] [alice] [example_page])
     (Writer False True None [])
   = ([Preamble \<lparr>pre_version = ''0.1'', pre_title = ''Blog'', pre_subtitle = ''A blog'',
                  pre_id = ''tag:example.org,500:tpxa_export/full'',
                  pre_blog_url = ''http://example.org/'', pre_updated = ''500''\<rparr>,
       Node (configuration
               (example_app [''pages''] [example_post 1 500 alice [] [news]] [alice]
                  [example_page]))],
      Some (TypeError ''argument of type NoneType is not iterable''))"
  by code_simp

text \<open>
  C8: the claim is that with \<^verbatim>\<open>tags_to_categories\<close> every tag whose slug is not in the
  list \<^verbatim>\<open>keep_as_tags\<close> is written with the category scheme.  This holds when the
  writer has a list: the scheme is then a function of the description and the slug
  of the tag and of the three options, every tag of the post gets one \<^verbatim>\<open>category\<close>
  element, in order, with its slug as term and that scheme, and these are the
  \<^verbatim>\<open>category\<close> elements of the entry.  But \<^verbatim>\<open>main\<close> passes \<^verbatim>\<open>options.keep_as_tag\<close>, which
  is \<^verbatim>\<open>None\<close> when no \<^verbatim>\<open>--keep-as-tag\<close> is given: then, with \<^verbatim>\<open>tags_to_categories\<close>, the
  test \<^verbatim>\<open>tag.slug not in self.keep_as_tags\<close> raises \<^verbatim>\<open>TypeError\<close> for every tag, no
  entry of a post with a tag is written, and the export of a blog with such a post
  ends with that exception after the configuration.
\<close>

theorem keep_as_tags_None_raises:
  "(tags_to_categories w0 \<and> keep_as_tags w0 = None \<longrightarrow>
      tag_scheme w0 t0 = Inl (TypeError ''argument of type NoneType is not iterable'')
      \<and> dump_tag w0 t0 = Inl (TypeError ''argument of type NoneType is not iterable'')
      \<and> (p_tags p0 \<noteq> [] \<longrightarrow>
           dump_tags w0 (p_tags p0) = Inl (TypeError ''argument of type NoneType is not iterable'')
           \<and> (\<exists>e. dump_post env w0 p0 = Inl e)))
   \<and> generate example_wenv
        (example_app [''pages''] [example_post 1 500 alice [] [news]] [alice] [example_page])
        (Writer False True None [])
      = ([Preamble \<lparr>pre_version = ''0.1'', pre_title = ''Blog'', pre_subtitle = ''A blog'',
                     pre_id = ''tag:example.org,500:tpxa_export/full'',
                     pre_blog_url = ''http://example.org/'', pre_updated = ''500''\<rparr>,
          Node (configuration
                  (example_app [''pages''] [example_post 1 500 alice [] [news]] [alice]
                     [example_page]))],
         Some (TypeError ''argument of type NoneType is not iterable''))
   \<and> (keep_as_tags w = Some keep \<longrightarrow>
        tag_scheme w t =
          Inr (if ((truthy (t_description t) \<and> description_to_category w)
                   \<or> tags_to_categories w) \<and> t_slug t \<notin> set keep
               then TEXTPRESS_CATEGORY_URI else TEXTPRESS_TAG_URI))
   \<and> (tags_to_categories w \<and> keep_as_tags w = Some keep \<and> t_slug t \<notin> set keep \<longrightarrow>
        tag_scheme w t = Inr TEXTPRESS_CATEGORY_URI)
   \<and> (dump_tag w t = Inr e \<longleftrightarrow>
        (\<exists>scheme. tag_scheme w t = Inr scheme
           \<and> e = Element (atom ''category'')
                   ([(''term'', t_slug t), (''scheme'', scheme)]
                    @ (if t_slug t \<noteq> t_name t then [(''label'', t_name t)] else []))
                   None []))
   \<and> (dump_tags w ts = Inr es \<longleftrightarrow> list_all2 (\<lambda>t e. dump_tag w t = Inr e) ts es)
   \<and> (post_entry env w p = Inr entry \<longrightarrow>
        dump_tags w (p_tags p) = Inr (findall entry (atom ''category'')))"
proof (intro conjI impI)
  assume h: "tags_to_categories w0 \<and> keep_as_tags w0 = None"
  then show s: "tag_scheme w0 t0 = Inl (TypeError ''argument of type NoneType is not iterable'')"
    by (simp add: tag_scheme_def)
  then show "dump_tag w0 t0 = Inl (TypeError ''argument of type NoneType is not iterable'')"
    by (simp add: dump_tag_def)
  assume ne: "p_tags p0 \<noteq> []"
  from h have "dump_tag w0 t' = Inl (TypeError ''argument of type NoneType is not iterable'')"
    for t' by (simp add: dump_tag_def tag_scheme_def)
  from dump_tags_raises [OF this ne]
  show d: "dump_tags w0 (p_tags p0) = Inl (TypeError ''argument of type NoneType is not iterable'')" .
  from post_entry_raises [OF d, of env] show "\<exists>e. dump_post env w0 p0 = Inl e"
    by (auto simp: dump_post_def)
next
  show "generate example_wenv
        (example_app [''pages''] [example_post 1 500 alice [] [news]] [alice] [example_page])
        (Writer False True None [])
      = ([Preamble \<lparr>pre_version = ''0.1'', pre_title = ''Blog'', pre_subtitle = ''A blog'',
                     pre_id = ''tag:example.org,500:tpxa_export/full'',
                     pre_blog_url = ''http://example.org/'', pre_updated = ''500''\<rparr>,
          Node (configuration
                  (example_app [''pages''] [example_post 1 500 alice [] [news]] [alice]
                     [example_page]))],
         Some (TypeError ''argument of type NoneType is not iterable''))"
    by (rule tagged_post_raised)
next
  assume "keep_as_tags w = Some keep"
  then show "tag_scheme w t =
          Inr (if ((truthy (t_description t) \<and> description_to_category w)
                   \<or> tags_to_categories w) \<and> t_slug t \<notin> set keep
               then TEXTPRESS_CATEGORY_URI else TEXTPRESS_TAG_URI)"
    by (simp add: tag_scheme_def)
next
  assume "tags_to_categories w \<and> keep_as_tags w = Some keep \<and> t_slug t \<notin> set keep"
  then show "tag_scheme w t = Inr TEXTPRESS_CATEGORY_URI"
    by (simp add: tag_scheme_def)
next
  show "dump_tag w t = Inr e \<longleftrightarrow>
        (\<exists>scheme. tag_scheme w t = Inr scheme
           \<and> e = Element (atom ''category'')
                   ([(''term'', t_slug t), (''scheme'', scheme)]
                    @ (if t_slug t \<noteq> t_name t then [(''label'', t_name t)] else []))
                   None [])"
    unfolding dump_tag_def bind_eq_Inr by auto
next
  show "dump_tags w ts = Inr es \<longleftrightarrow> list_all2 (\<lambda>t e. dump_tag w t = Inr e) ts es"
    by (rule dump_tags_each)
next
  assume "post_entry env w p = Inr entry"
  then show "dump_tags w (p_tags p) = Inr (findall entry (atom ''category''))"
    by (rule post_entry_categories)
qed

text \<open>
  C8 at the writer of \<^verbatim>\<open>main\<close> with \<^verbatim>\<open>--tags-to-categories\<close> and no \<^verbatim>\<open>--keep-as-tag\<close>,
  and at a writer with a keep list that does not name the tag \<open>news\<close>, for a post with
  this tag.
\<close>

theorem keep_as_tags_None_raises_witness:
  "tag_scheme (Writer False True None []) news
     = Inl (TypeError ''argument of type NoneType is not iterable'')
   \<and> dump_tags (Writer False True None []) (p_tags (example_post 1 500 alice [] [news]))
     = Inl (TypeError ''argument of type NoneType is not iterable'')
   \<and> (\<exists>e. dump_post example_wenv (Writer False True None [])
             (example_post 1 500 alice [] [news]) = Inl e)
   \<and> tag_scheme (register_users example_wenv [alice] (Writer False True (Some [''keep'']) []))
        news = Inr TEXTPRESS_CATEGORY_URI
   \<and> (\<exists>entry. post_entry example_wenv
                 (register_users example_wenv [alice] (Writer False True (Some [''keep'']) []))
                 (example_post 1 500 alice [] [news]) = Inr entry
              \<and> findall entry (atom ''category'')
                 = [Element (atom ''category'')
                      [(''term'', ''news''), (''scheme'', TEXTPRESS_CATEGORY_URI),
                       (''label'', ''News'')] None []])"
proof -
  let ?wn = "Writer False True None []"
  let ?w = "register_users example_wenv [alice] (Writer False True (Some [''keep'']) [])"
  let ?p = "example_post 1 500 alice [] [news]"
  let ?e = "Element (atom ''category'')
              [(''term'', ''news''), (''scheme'', TEXTPRESS_CATEGORY_URI), (''label'', ''News'')]
              None []"
  have a: "tags_to_categories ?wn \<and> keep_as_tags ?wn = None" by code_simp
  have a': "p_tags ?p \<noteq> []" by code_simp
  have b: "tags_to_categories ?w \<and> keep_as_tags ?w = Some [''keep'']
           \<and> t_slug news \<notin> set [''keep'']"
    by code_simp
  have "raised (post_entry example_wenv ?w ?p) = None" by code_simp
  then obtain entry where c: "post_entry example_wenv ?w ?p = Inr entry"
    by (cases "post_entry example_wenv ?w ?p") simp_all
  have d: "p_tags ?p = [news]" by code_simp
  have e: "?e = Element (atom ''category'')
                   ([(''term'', t_slug news), (''scheme'', TEXTPRESS_CATEGORY_URI)]
                    @ (if t_slug news \<noteq> t_name news then [(''label'', t_name news)] else []))
                   None []" by code_simp
  note inst = keep_as_tags_None_raises [where ?w0.0 = "?wn" and ?t0.0 = news and ?p0.0 = "?p"
      and env = example_wenv and w = "?w" and keep = "[''keep'']" and t = news and e = "?e"
      and ts = "[news]" and es = "[?e]" and p = "?p" and entry = entry]
  from inst a a' have 1: "tag_scheme ?wn news
       = Inl (TypeError ''argument of type NoneType is not iterable'')"
    and 2: "dump_tags ?wn (p_tags ?p)
       = Inl (TypeError ''argument of type NoneType is not iterable'')"
    and 3: "\<exists>e. dump_post example_wenv ?wn ?p = Inl e" by blast+
  from inst b have 4: "tag_scheme ?w news = Inr TEXTPRESS_CATEGORY_URI" by blast
  from inst 4 e have "dump_tag ?w news = Inr ?e" by blast
  with inst have "dump_tags ?w [news] = Inr [?e]" by simp
  moreover from inst c have "dump_tags ?w (p_tags ?p) = Inr (findall entry (atom ''category''))"
    by blast
  ultimately have 5: "findall entry (atom ''category'') = [?e]" using d by simp
  from 1 2 3 4 5 c show ?thesis by blast
qed

subsection \<open>The shape of the output\<close>

lemma and_then_None [simp]: "and_then (a, None) b = (a @ fst b, snd b)"
  by (simp add: and_then_def)

lemma and_then_Some [simp]: "and_then (a, Some e) b = (a, Some e)"
  by (simp add: and_then_def)

lemma setup_all_fst: "\<exists>r. setup_all ps = ([], r)"
  by (induction ps) (auto simp: raise_def)

lemma dump_all_nodes: "\<exists>nodes r. dump_all f xs = (map Node nodes, r)"
proof (induction xs)
  case Nil
  show ?case by simp
next
  case (Cons x xs)
  then obtain nodes r where IH: "dump_all f xs = (map Node nodes, r)" by blast
  show ?case
  proof (cases "f x")
    case (Inl e)
    then have "dump_all f (x # xs) = (map Node [], Some e)" by (simp add: raise_def)
    then show ?thesis by blast
  next
    case (Inr n)
    then have "dump_all f (x # xs) = (map Node (n # nodes), r)"
      by (simp add: IH yield_def)
    then show ?thesis by blast
  qed
qed

lemma dump_pages_nodes: "\<exists>nodes r. dump_pages env w pages = (map Node nodes, r)"
proof (cases pages)
  case None
  then have "dump_pages env w pages = (map Node [], Some (UnboundLocalError ''pages''))"
    by (simp add: dump_pages_def raise_def)
  then show ?thesis by blast
next
  case (Some gs)
  with dump_all_nodes [of "dump_page env w" gs] show ?thesis by (simp add: dump_pages_def)
qed

lemma plugin_trees_nodes: "\<exists>nodes. plugin_trees ps = map Node nodes"
  by (auto simp: plugin_trees_def)

lemma tail_shape:
  assumes "and_then (map Node n1, r1) (and_then (map Node n2, r2)
             (and_then (blk, None) (yield (Literal XML_EPILOG)))) = (cs, err)"
  shows "(err = None \<and> (\<exists>nodes. cs = map Node nodes @ blk @ [Literal XML_EPILOG]))
         \<or> (err \<noteq> None \<and> (\<exists>nodes. cs = map Node nodes))"
proof (cases r1)
  case (Some e)
  with assms show ?thesis by auto
next
  case None
  show ?thesis
  proof (cases r2)
    case (Some e)
    with None assms have "err = Some e" "cs = map Node (n1 @ n2)" by auto
    then show ?thesis by blast
  next
    case r2: None
    with None assms have "err = None" "cs = map Node (n1 @ n2) @ blk @ [Literal XML_EPILOG]"
      by (auto simp: yield_def)
    then show ?thesis by blast
  qed
qed

lemma generate_shape:
  assumes "generate env a w = (cs, err)"
  shows "(err = None \<and> (\<exists>pre nodes. cs = Preamble pre # map Node nodes
            @ dependencies_block env (register_users env (user_objects a) w)
            @ [Literal XML_EPILOG]))
         \<or> (err \<noteq> None \<and> (cs = [] \<or> (\<exists>pre nodes. cs = Preamble pre # map Node nodes)))"
proof (cases "first_items a")
  case (Inl e)
  with assms show ?thesis by (auto simp: generate_def raise_def)
next
  case (Inr fi)
  obtain last_update posts_iter pages where fi: "fi = (last_update, posts_iter, pages)"
    by (cases fi) auto
  show ?thesis
  proof (cases "make_preamble env a last_update")
    case (Inl e)
    with assms Inr fi show ?thesis by (auto simp: generate_def raise_def)
  next
    case pre: (Inr pre)
    let ?w1 = "register_users env (user_objects a) w"
    obtain r0 where s0: "setup_all (participants w) = ([], r0)"
      using setup_all_fst by blast
    obtain n0 where p0: "plugin_trees (participants w) = map Node n0"
      using plugin_trees_nodes by blast
    obtain n1 r1 where d1: "dump_all (dump_post env ?w1) posts_iter = (map Node n1, r1)"
      using dump_all_nodes by blast
    obtain n2 r2 where d2: "dump_pages env ?w1 pages = (map Node n2, r2)"
      using dump_pages_nodes by blast
    obtain cs' err' where tl: "and_then (map Node n1, r1) (and_then (map Node n2, r2)
           (and_then (dependencies_block env ?w1, None) (yield (Literal XML_EPILOG)))) = (cs', err')"
      by (cases "and_then (map Node n1, r1) (and_then (map Node n2, r2)
           (and_then (dependencies_block env ?w1, None) (yield (Literal XML_EPILOG))))") auto
    show ?thesis
    proof (cases r0)
      case (Some e)
      with assms Inr fi pre s0 have "err = Some e" "cs = Preamble pre # map Node []"
        by (simp_all add: generate_def yield_def)
      then show ?thesis by blast
    next
      case None
      with assms Inr fi pre s0 p0 d1 d2 tl
      have cs: "cs = Preamble pre # map Node (configuration a # n0) @ cs'" and err: "err = err'"
        by (simp_all add: generate_def yield_def Let_def)
      from tail_shape [OF tl] show ?thesis
      proof
        assume "err' = None \<and> (\<exists>nodes. cs' = map Node nodes
                  @ dependencies_block env ?w1 @ [Literal XML_EPILOG])"
        then obtain nodes where "err' = None"
          "cs' = map Node nodes @ dependencies_block env ?w1 @ [Literal XML_EPILOG]" by blast
        with cs err have "err = None" "cs = Preamble pre # map Node (configuration a # n0 @ nodes)
            @ dependencies_block env ?w1 @ [Literal XML_EPILOG]" by simp_all
        then show ?thesis by blast
      next
        assume "err' \<noteq> None \<and> (\<exists>nodes. cs' = map Node nodes)"
        then obtain nodes where "err' \<noteq> None" "cs' = map Node nodes" by blast
        with cs err have "err \<noteq> None"
          "cs = Preamble pre # map Node (configuration a # n0 @ nodes)"
          by simp_all
        then show ?thesis by blast
      qed
    qed
  qed
qed

lemma legacy_generate_shape:
  assumes "legacy_generate env a w = (cs, err)"
  shows "(err = None \<and> (\<exists>pre nodes. cs = Preamble pre # map Node nodes
            @ dependencies_block env (fold (legacy_register_user env) (user_objects a) w)
            @ [Literal XML_EPILOG]))
         \<or> (err \<noteq> None \<and> (cs = [] \<or> (\<exists>pre nodes. cs = Preamble pre # map Node nodes)))"
proof (cases "make_preamble env a (legacy_last_update a)")
  case (Inl e)
  with assms show ?thesis by (auto simp: legacy_generate_def raise_def)
next
  case pre: (Inr pre)
  let ?w1 = "fold (legacy_register_user env) (user_objects a) w"
  obtain r0 where s0: "setup_all (participants w) = ([], r0)"
    using setup_all_fst by blast
  obtain n0 where p0: "plugin_trees (participants w) = map Node n0"
    using plugin_trees_nodes by blast
  obtain n1 r1 where d1: "dump_all (legacy_dump_post env ?w1) (post_objects a) = (map Node n1, r1)"
    using dump_all_nodes by blast
  have e: "and_then (map Node [], None) x = x" for x :: chunks
    by (cases x) simp
  obtain cs' err' where tl: "and_then (map Node n1, r1) (and_then (map Node [], None)
         (and_then (dependencies_block env ?w1, None) (yield (Literal XML_EPILOG)))) = (cs', err')"
    by (cases "and_then (map Node n1, r1) (and_then (map Node [], None)
         (and_then (dependencies_block env ?w1, None) (yield (Literal XML_EPILOG))))") auto
  show ?thesis
  proof (cases r0)
    case (Some e)
    with assms pre s0 have "err = Some e" "cs = Preamble pre # map Node []"
      by (simp_all add: legacy_generate_def yield_def)
    then show ?thesis by blast
  next
    case None
    with assms pre s0 p0 d1 tl [unfolded e]
    have cs: "cs = Preamble pre # map Node (configuration a # n0) @ cs'" and err: "err = err'"
      by (simp_all add: legacy_generate_def yield_def Let_def)
    from tail_shape [OF tl] show ?thesis
    proof
      assume "err' = None \<and> (\<exists>nodes. cs' = map Node nodes
                @ dependencies_block env ?w1 @ [Literal XML_EPILOG])"
      then obtain nodes where "err' = None"
        "cs' = map Node nodes @ dependencies_block env ?w1 @ [Literal XML_EPILOG]" by blast
      with cs err have "err = None" "cs = Preamble pre # map Node (configuration a # n0 @ nodes)
          @ dependencies_block env ?w1 @ [Literal XML_EPILOG]" by simp_all
      then show ?thesis by blast
    next
      assume "err' \<noteq> None \<and> (\<exists>nodes. cs' = map Node nodes)"
      then obtain nodes where "err' \<noteq> None" "cs' = map Node nodes" by blast
      with cs err have "err \<noteq> None"
        "cs = Preamble pre # map Node (configuration a # n0 @ nodes)"
        by simp_all
      then show ?thesis by blast
    qed
  qed
qed

subsection \<open>The dependency table\<close>

lemma hex_char_inject: "a < 16 \<Longrightarrow> b < 16 \<Longrightarrow> hex_char a = hex_char b \<Longrightarrow> a = b"
  using nth_eq_iff_index_eq [of "''0123456789abcdef''" a b]
  by (simp add: hex_char_def)

lemma hex_nonempty: "hex n \<noteq> []"
  by (subst hex.simps) simp

lemma hex_inject: "hex n = hex m \<Longrightarrow> n = m"
proof (induction n arbitrary: m rule: hex.induct)
  case (1 n)
  show ?case
  proof (cases "n < 16")
    case True
    show ?thesis
    proof (cases "m < 16")
      case m: True
      from "1.prems" True m have "hex_char n = hex_char m"
        by (simp add: hex.simps [of n] hex.simps [of m])
      with hex_char_inject [OF True m] show ?thesis by blast
    next
      case False
      with "1.prems" True have "[hex_char n] = hex (m div 16) @ [hex_char (m mod 16)]"
        by (simp add: hex.simps [of n] hex.simps [of m])
      with hex_nonempty [of "m div 16"] show ?thesis by (cases "hex (m div 16)") simp_all
    qed
  next
    case False
    show ?thesis
    proof (cases "m < 16")
      case True
      with "1.prems" False have "hex (n div 16) @ [hex_char (n mod 16)] = [hex_char m]"
        by (simp add: hex.simps [of n] hex.simps [of m])
      with hex_nonempty [of "n div 16"] show ?thesis by (cases "hex (n div 16)") simp_all
    next
      case m: False
      with "1.prems" False
      have "hex (n div 16) @ [hex_char (n mod 16)] = hex (m div 16) @ [hex_char (m mod 16)]"
        by (simp add: hex.simps [of n] hex.simps [of m])
      then have a: "hex (n div 16) = hex (m div 16)"
        and b: "hex_char (n mod 16) = hex_char (m mod 16)"
        by simp_all
      from "1.IH" [OF False a] have "n div 16 = m div 16" .
      moreover from b have "n mod 16 = m mod 16" by (intro hex_char_inject) simp_all
      ultimately show ?thesis by (metis div_mult_mod_eq)
    qed
  qed
qed

lemma update_fresh: "k \<notin> fst ` set al \<Longrightarrow> AList.update k v al = al @ [(k, v)]"
  by (induction al) auto

lemma register_user_deps:
  "dependencies (register_user env u w) =
     AList.update (hex (Suc (length (dependencies w))))
       (user_node env (participants w) (hex (Suc (length (dependencies w)))) u) (dependencies w)"
  by (simp add: register_user_def new_dependency_def Let_def user_node_def)

lemma register_user_participants: "participants (register_user env u w) = participants w"
  by (simp add: register_user_def new_dependency_def Let_def)

lemma register_users_snoc:
  "register_users env (us @ [u]) w = register_user env u (register_users env us w)"
  by (simp add: register_users_def)

lemma register_users_participants: "participants (register_users env us w) = participants w"
  by (induction us rule: rev_induct)
     (simp_all add: register_users_snoc register_user_participants, simp add: register_users_def)

lemma register_users_deps:
  assumes "dependencies w = []"
  shows "dependencies (register_users env us w)
         = map (\<lambda>(i, u). (hex (Suc i), user_node env (participants w) (hex (Suc i)) u))
             (enumerate 0 us)"
proof (induction us rule: rev_induct)
  case Nil
  from assms show ?case by (simp add: register_users_def)
next
  case (snoc u us)
  let ?d = "dependencies (register_users env us w)"
  have len: "length ?d = length us" by (simp add: snoc.IH)
  have "hex (Suc (length us)) \<notin> fst ` set ?d"
  proof
    assume "hex (Suc (length us)) \<in> fst ` set ?d"
    then obtain i where "i < length us" "hex (Suc (length us)) = hex (Suc i)"
      by (auto simp: snoc.IH in_set_enumerate_eq)
    then show False using hex_inject by fastforce
  qed
  then have "dependencies (register_users env (us @ [u]) w)
       = ?d @ [(hex (Suc (length us)), user_node env (participants w) (hex (Suc (length us))) u)]"
    by (simp add: register_users_snoc register_user_deps len update_fresh
                  register_users_participants)
  then show ?case by (simp add: snoc.IH enumerate_append_eq)
qed

lemma itervalues_insertion_order:
  assumes "distinct (map fst d)" and "str_dict_order env (map fst d) = map fst d"
  shows "itervalues env d = map snd d"
proof -
  have "List.map_filter (map_of d) (map fst d') = map snd d'" if "set d' \<subseteq> set d" for d'
    using that assms(1)
    by (induction d') auto
  then show ?thesis by (simp add: itervalues_def assms(2))
qed

lemma legacy_register_user_deps:
  "dependencies (legacy_register_user env u w) = dependencies (register_user env u w)"
  by (simp add: register_user_def legacy_register_user_def new_dependency_def Let_def)

lemma legacy_register_user_participants:
  "participants (legacy_register_user env u w) = participants w"
  by (simp add: legacy_register_user_def new_dependency_def Let_def)

lemma legacy_register_users:
  "dependencies (fold (legacy_register_user env) us w) = dependencies (register_users env us w)
   \<and> participants (fold (legacy_register_user env) us w) = participants w"
proof (induction us rule: rev_induct)
  case Nil
  show ?case by (simp add: register_users_def)
next
  case (snoc u us)
  then show ?case
    by (simp add: register_users_snoc legacy_register_user_deps register_user_deps
                  legacy_register_user_participants register_users_participants)
qed

lemma keys_enumerate:
  "map (\<lambda>x. f (fst x)) (enumerate 0 us) = map f [0..<length us]"
proof -
  have a: "map f (map fst (enumerate 0 us)) = map f [0..<length us]"
    by simp
  have b: "map f (map fst (enumerate 0 us)) = map (\<lambda>x. f (fst x)) (enumerate 0 us)"
    by (simp only: map_map comp_def)
  from b [symmetric] a show ?thesis by (rule trans)
qed

lemma dependencies_block_cong:
  "dependencies w = dependencies w' \<Longrightarrow> dependencies_block env w = dependencies_block env w'"
  by (simp add: dependencies_block_def)

text \<open>
  C2, as amended: in every export, by either copy of the module, the dependencies
  block comes after everything else but the epilogue, hence after all entries; it
  is one container around the nodes of the dependency table; it is left out when
  the table is empty, and it is not reached when the export raises.  The table of a
  fresh writer holds one node for each user, under the ids 1, 2, ... in the order of
  registration.  The nodes of the block come in the order in which the dictionary
  iterates, which is the order of registration when the dictionary iterates in
  the order of insertion.
\<close>

theorem dependencies_block_last:
  assumes "g = generate env a w \<or> g = legacy_generate env a w"
      and "g = (cs, err)"
      and "w1 = register_users env (user_objects a) w"
  shows "(err = None \<longrightarrow>
            (\<exists>pre nodes. cs = Preamble pre # map Node nodes @ dependencies_block env w1
                              @ [Literal XML_EPILOG]))
         \<and> (err \<noteq> None \<longrightarrow> (\<forall>l. Literal l \<notin> set cs))
         \<and> (dependencies w1 = [] \<longrightarrow> dependencies_block env w1 = [])
         \<and> (dependencies w1 \<noteq> [] \<longrightarrow>
              dependencies_block env w1 =
                Literal ''<tp:dependencies>'' # map Node (itervalues env (dependencies w1))
                @ [Literal ''</tp:dependencies>''])
         \<and> (dependencies w = [] \<longrightarrow>
              dependencies w1 =
                map (\<lambda>(i, u). (hex (Suc i), user_node env (participants w) (hex (Suc i)) u))
                  (enumerate 0 (user_objects a)))
         \<and> (dependencies w = []
              \<and> str_dict_order env (map fst (dependencies w1)) = map fst (dependencies w1) \<longrightarrow>
              itervalues env (dependencies w1) = map snd (dependencies w1))"
proof -
  have shape: "(err = None \<and> (\<exists>pre nodes. cs = Preamble pre # map Node nodes
            @ dependencies_block env w1 @ [Literal XML_EPILOG]))
         \<or> (err \<noteq> None \<and> (cs = [] \<or> (\<exists>pre nodes. cs = Preamble pre # map Node nodes)))"
    using assms(1)
  proof
    assume "g = generate env a w"
    with assms(2) have "generate env a w = (cs, err)" by simp
    from generate_shape [OF this] show ?thesis by (simp add: assms(3))
  next
    assume "g = legacy_generate env a w"
    with assms(2) have "legacy_generate env a w = (cs, err)" by simp
    from legacy_generate_shape [OF this]
         dependencies_block_cong [of "fold (legacy_register_user env) (user_objects a) w" w1 env]
         legacy_register_users [of env "user_objects a" w]
    show ?thesis by (simp add: assms(3))
  qed
  have c1: "err = None \<longrightarrow>
            (\<exists>pre nodes. cs = Preamble pre # map Node nodes @ dependencies_block env w1
                              @ [Literal XML_EPILOG])"
    using shape by blast
  have c2: "err \<noteq> None \<longrightarrow> (\<forall>l. Literal l \<notin> set cs)"
  proof (intro impI allI)
    fix l
    assume "err \<noteq> None"
    with shape have "cs = [] \<or> (\<exists>pre nodes. cs = Preamble pre # map Node nodes)" by blast
    then show "Literal l \<notin> set cs" by auto
  qed
  have c3: "dependencies w1 = [] \<longrightarrow> dependencies_block env w1 = []"
    by (simp add: dependencies_block_def)
  have c4: "dependencies w1 \<noteq> [] \<longrightarrow>
              dependencies_block env w1 =
                Literal ''<tp:dependencies>'' # map Node (itervalues env (dependencies w1))
                @ [Literal ''</tp:dependencies>'']"
    by (simp add: dependencies_block_def)
  have c5: "dependencies w = [] \<longrightarrow>
              dependencies w1 =
                map (\<lambda>(i, u). (hex (Suc i), user_node env (participants w) (hex (Suc i)) u))
                  (enumerate 0 (user_objects a))"
    using register_users_deps [of w env "user_objects a"] by (simp add: assms(3))
  have c6: "dependencies w = []
              \<and> str_dict_order env (map fst (dependencies w1)) = map fst (dependencies w1) \<longrightarrow>
              itervalues env (dependencies w1) = map snd (dependencies w1)"
  proof
    assume h: "dependencies w = []
              \<and> str_dict_order env (map fst (dependencies w1)) = map fst (dependencies w1)"
    with c5 have "map fst (dependencies w1) = map (\<lambda>i. hex (Suc i)) [0..<length (user_objects a)]"
      using keys_enumerate [of "\<lambda>i. hex (Suc i)" "user_objects a"]
      by (simp add: comp_def case_prod_unfold)
    moreover have "distinct (map (\<lambda>i. hex (Suc i)) [0..<length (user_objects a)])"
      by (auto simp: distinct_map inj_on_def dest: hex_inject)
    ultimately have "distinct (map fst (dependencies w1))" by simp
    from itervalues_insertion_order [OF this] h
    show "itervalues env (dependencies w1) = map snd (dependencies w1)" by simp
  qed
  from c1 c2 c3 c4 c5 c6 show ?thesis by blast
qed

subsection \<open>Running the exporter on the examples\<close>

text \<open>
  C2, as stated, fails: three users are registered under the ids 1, 2 and 3, and
  the dictionary of CPython 2.7 iterates over the keys in the order 1, 3, 2, so the
  nodes of the block are not in the order of registration.
\<close>

theorem dependencies_not_in_registration_order:
  "dependency_ids (fst (generate example_wenv (example_app [''pages''] [] [alice, bob, carol] [])
                          (Writer True False (Some []) [])))
     = [''1'', ''3'', ''2'']
   \<and> dependency_ids (fst (legacy_generate example_wenv (example_app [] [] [alice, bob, carol] [])
                          (Writer True False (Some []) [])))
     = [''1'', ''3'', ''2'']
   \<and> map fst (dependencies (register_users example_wenv [alice, bob, carol]
                                (Writer True False (Some []) [])))
     = [''1'', ''2'', ''3'']"
  by code_simp

text \<open>The amended C2 at an export of two users, where the two orders agree.\<close>

theorem dependencies_block_last_witness:
  "(\<exists>pre nodes.
       fst (generate example_wenv (example_app [''pages''] [] [alice, bob] [])
              (Writer True False (Some []) []))
       = Preamble pre # map Node nodes
         @ dependencies_block example_wenv
             (register_users example_wenv [alice, bob] (Writer True False (Some []) []))
         @ [Literal XML_EPILOG])
   \<and> dependencies_block example_wenv
         (register_users example_wenv [alice, bob] (Writer True False (Some []) []))
       = Literal ''<tp:dependencies>''
         # map Node (itervalues example_wenv (dependencies
             (register_users example_wenv [alice, bob] (Writer True False (Some []) []))))
         @ [Literal ''</tp:dependencies>'']
   \<and> itervalues example_wenv (dependencies
         (register_users example_wenv [alice, bob] (Writer True False (Some []) [])))
       = map snd (dependencies
           (register_users example_wenv [alice, bob] (Writer True False (Some []) [])))"
proof -
  let ?a = "example_app [''pages''] [] [alice, bob] []"
  let ?w = "Writer True False (Some []) []"
  let ?w1 = "register_users example_wenv [alice, bob] ?w"
  have u: "user_objects ?a = [alice, bob]" by (simp add: example_app_def)
  have e: "snd (generate example_wenv ?a ?w) = None"
    by code_simp
  have d: "dependencies ?w = []" by (simp add: Writer_def)
  have n: "dependencies ?w1 \<noteq> []" by code_simp
  have k: "map fst (dependencies ?w1) = [''1'', ''2'']" by code_simp
  have "str_dict_order example_wenv [''1'', ''2''] = [''1'', ''2'']"
    by code_simp
  with k have o: "str_dict_order example_wenv (map fst (dependencies ?w1))
                  = map fst (dependencies ?w1)" by simp
  have g: "generate example_wenv ?a ?w = (fst (generate example_wenv ?a ?w), None)"
    using e by (cases "generate example_wenv ?a ?w") simp
  have p1: "generate example_wenv ?a ?w = generate example_wenv ?a ?w
            \<or> generate example_wenv ?a ?w = legacy_generate example_wenv ?a ?w" by simp
  have p3: "?w1 = register_users example_wenv (user_objects ?a) ?w" by (simp only: u)
  from dependencies_block_last [OF p1 g p3] d n o
  show ?thesis by blast
qed

text \<open>
  C3: the claim is that the feed identifier and the feed-level \<^verbatim>\<open>updated\<close> come from
  the newest content item, that the clock is used only when there is no item, and
  that no post is left out.  With the pages plugin active and no page, the shared
  \<^verbatim>\<open>_generate\<close> has taken the first post from its iterator when \<^verbatim>\<open>pages.next()\<close>
  raises \<^verbatim>\<open>StopIteration\<close>: the clock (1000) is used although there is a post
  (updated at 500), and the post is not written.  The older copy of the module, which
  knows no pages, uses the post's time and writes the post; so does the shared one
  when there is a page.  Without the plugin the shared one raises before the
  preamble.
\<close>

theorem newest_post_dropped:
  "feed_updated (fst (generate example_wenv
       (example_app [''pages''] [example_post 1 500 alice [] []] [alice] [])
       (Writer True False (Some []) []))) = Some ''1000''
   \<and> emitted_entries (fst (generate example_wenv
       (example_app [''pages''] [example_post 1 500 alice [] []] [alice] [])
       (Writer True False (Some []) []))) = []
   \<and> snd (generate example_wenv
       (example_app [''pages''] [example_post 1 500 alice [] []] [alice] [])
       (Writer True False (Some []) [])) = None
   \<and> feed_updated (fst (legacy_generate example_wenv
       (example_app [] [example_post 1 500 alice [] []] [alice] [])
       (Writer True False (Some []) []))) = Some ''500''
   \<and> length (emitted_entries (fst (legacy_generate example_wenv
       (example_app [] [example_post 1 500 alice [] []] [alice] [])
       (Writer True False (Some []) [])))) = 1
   \<and> feed_updated (fst (generate example_wenv
       (example_app [''pages''] [example_post 1 500 alice [] []] [alice] [example_page])
       (Writer True False (Some []) []))) = Some ''500''
   \<and> length (emitted_entries (fst (generate example_wenv
       (example_app [''pages''] [example_post 1 500 alice [] []] [alice] [example_page])
       (Writer True False (Some []) [])))) = 2
   \<and> generate example_wenv
       (example_app [] [example_post 1 500 alice [] []] [alice] [])
       (Writer True False (Some []) []) = ([], Some (UnboundLocalError ''pages''))"
  by code_simp

text \<open>
  C7: the claim is that the hook of every participant runs once before the
  configuration block and that a participant with the default hooks only does not
  break the export.  \<^verbatim>\<open>_generate\<close> calls \<^verbatim>\<open>participant.setup()\<close>, and the class
  \<^verbatim>\<open>Participant\<close> defines \<^verbatim>\<open>before_dump\<close> and no \<^verbatim>\<open>setup\<close>: with one default participant
  the export, of either copy of the module, ends with an \<^verbatim>\<open>AttributeError\<close> after the
  preamble, before the configuration block.  Without participants it runs through.
\<close>

theorem default_participant_breaks_export:
  "generate example_wenv (example_app [''pages''] [] [] []) (Writer True False (Some []) [Participant])
     = ([Preamble \<lparr>pre_version = ''0.1'', pre_title = ''Blog'', pre_subtitle = ''A blog'',
                  pre_id = ''tag:example.org,1000:tpxa_export/full'',
                  pre_blog_url = ''http://example.org/'', pre_updated = ''1000''\<rparr>],
        Some (AttributeError ''participant.setup''))
   \<and> legacy_generate example_wenv (example_app [] [] [] []) (Writer True False (Some []) [Participant])
     = ([Preamble \<lparr>pre_version = ''0.1'', pre_title = ''Blog'', pre_subtitle = ''A blog'',
                  pre_id = ''tag:example.org,1000:tpxa_export/full'',
                  pre_blog_url = ''http://example.org/'', pre_updated = ''1000''\<rparr>],
        Some (AttributeError ''participant.setup''))
   \<and> snd (generate example_wenv (example_app [''pages''] [] [] []) (Writer True False (Some []) []))
     = None"
  by code_simp

subsection \<open>Exporting a blog and importing the export\<close>











lemma yes_no_nonempty: "yes_no b \<noteq> []"
  by (simp add: yes_no_def)




text \<open>
  A node that was written and parsed, and an entry without its empty \<^verbatim>\<open>tp:parent\<close>
  elements, are read like the node the exporter made.
\<close>

lemma tag_reparse [simp]: "tag (reparse e) = tag e"
  by (cases e) simp

lemma children_reparse [simp]: "children (reparse e) = map reparse (children e)"
  by (cases e) simp


lemma findall_reparse [simp]: "findall (reparse e) t = map reparse (findall e t)"
  by (simp add: findall_def filter_map comp_def)

lemma find_elem_reparse [simp]: "find_elem (reparse e) t = map_option reparse (find_elem e t)"
  by (simp add: find_elem_def split: list.splits)




lemma xml_base_neq [simp]:
  "textpress t \<noteq> xml u" "textpress t \<noteq> ''xml:base''"
  "''dependency'' \<noteq> xml u" "''term'' \<noteq> xml u" "''scheme'' \<noteq> xml u" "''label'' \<noteq> xml u"
  "''key'' \<noteq> xml u" "''href'' \<noteq> xml u" "''type'' \<noteq> xml u"
  by (simp_all add: textpress_def xml_def qname_def TEXTPRESS_NS_def XML_NS_def)

lemma tag_without_empty_parents [simp]: "tag (without_empty_parents e) = tag e"
  by (simp add: without_empty_parents_def)

lemma tag_without_empty_parent [simp]: "tag (without_empty_parent e) = tag e"
  by (simp add: without_empty_parent_def)








lemma parent_of_dump_comment_kept:
  "findtext (reparse (dump_comment env c)) (textpress ''parent'')
     = Some (case c_parent_id c of None \<Rightarrow> [] | Some p \<Rightarrow> str p)"
  by (simp add: findtext_def find_elem_def findall_def dump_comment_def)







lemma remember_author_fields [simp]:
  "author_objs (remember_author a s) = author_objs s"
  "authors (remember_author a s) = authors s"
  "comment_objs (remember_author a s) = comment_objs s"
  "posts (remember_author a s) = posts s"
  "x_authors (remember_author a s) = x_authors s"
  "x_dependencies (remember_author a s) = x_dependencies s"
  "x_categories (remember_author a s) = x_categories s"
  "x_tags (remember_author a s) = x_tags s"
  "categories_by_term (remember_author a s) = categories_by_term s"
  "tags (remember_author a s) = tags s"
  "categories (remember_author a s) = categories s"
  "tag_objs (remember_author a s) = tag_objs s"
  "category_objs (remember_author a s) = category_objs s"
  by (simp_all add: remember_author_def Let_def split: option.splits)















lemma category_uris [simp]:
  "TEXTPRESS_TAG_URI \<noteq> TEXTPRESS_CATEGORY_URI" "TEXTPRESS_CATEGORY_URI \<noteq> TEXTPRESS_TAG_URI"
  by (simp_all add: TEXTPRESS_TAG_URI_def TEXTPRESS_CATEGORY_URI_def)












end
